theory Spec2Isabelle
  imports Complex_Main "HOL-Library.Monad_Syntax"
begin

section \<open>Doubles and raw arrays\<close>

text \<open>
  The C++ type \<^verbatim>\<open>double\<close> is modelled by \<^typ>\<open>real\<close>: arithmetic on finite values is
  exact (rounding and overflow are not modelled). An operation whose IEEE result is not a
  finite number (division by zero, logarithm of a non-positive number, a domain error of
  \<^verbatim>\<open>std::pow\<close>) and a read or write outside an array yield \<open>None\<close>: from there on the
  real-valued model does not describe the computation any more, also where a later
  operation would make the value finite again (\<^verbatim>\<open>std::pow(10., -inf)\<close> is 0 and
  \<^verbatim>\<open>std::pow(-inf, 0.)\<close> is 1). The exception is the evaporation rate that
  \<^verbatim>\<open>SprayFlame::q\<close> compares with its threshold: there the infinite values and NaN are
  kept (type \<open>dbl\<close> below), because the comparison decides on them.
\<close>

definition fdiv :: "real \<Rightarrow> real \<Rightarrow> real option" where
  "fdiv a b = (if b = 0 then None else Some (a / b))"

definition flog :: "real \<Rightarrow> real option" where
  "flog a = (if 0 < a then Some (ln a) else None)"

definition fpow :: "real \<Rightarrow> real \<Rightarrow> real option" where
  "fpow b e =
     (if 0 < b then Some (b powr e)
      else if b = 0 then (if 0 < e then Some 0 else if e = 0 then Some 1 else None)
      else if e = of_int \<lfloor>e\<rfloor> then Some (b powi \<lfloor>e\<rfloor>) else None)"

definition rd :: "real list \<Rightarrow> nat \<Rightarrow> real option" where
  "rd xs i = (if i < length xs then Some (xs ! i) else None)"

definition wr :: "real list \<Rightarrow> nat \<Rightarrow> real \<Rightarrow> real list option" where
  "wr xs i v = (if i < length xs then Some (xs[i := v]) else None)"

text \<open>\<^verbatim>\<open>std::sqrt(std::numeric_limits<double>::min())\<close>, the threshold written
  \<open>\<surd>\<epsilon>\<close> in the specification: the smallest positive normal double is \<open>2\<^sup>-\<^sup>1\<^sup>0\<^sup>2\<^sup>2\<close>.\<close>

definition dbl_min :: real where
  "dbl_min = 1 / 2 ^ 1022"

definition sqrt_dbl_min :: real where
  "sqrt_dbl_min = sqrt dbl_min"

text \<open>
  A double that may be infinite or NaN. The operations are those of IEEE 754 on the
  operand kinds that \<^verbatim>\<open>mdot\<close> and \<^verbatim>\<open>q\<close> of StFlow.h apply them to: \<^verbatim>\<open>std::log\<close> of a finite
  number (\<open>log 0 = -\<infinity>\<close>, NaN below 0), a finite number times a double (\<open>0 \<cdot> \<plusminus>\<infinity>\<close> is NaN),
  \<^verbatim>\<open><=\<close> against a finite number (false for NaN, true for \<open>-\<infinity>\<close>), \<^verbatim>\<open>std::exp\<close>, and a
  double minus a finite number.
\<close>

datatype dbl = Fin real | PInf | MInf | NaN

definition dlog :: "real \<Rightarrow> dbl" where
  "dlog a = (if 0 < a then Fin (ln a) else if a = 0 then MInf else NaN)"

fun dmul :: "real \<Rightarrow> dbl \<Rightarrow> dbl" where
  "dmul a (Fin b) = Fin (a * b)"
| "dmul a PInf = (if 0 < a then PInf else if a < 0 then MInf else NaN)"
| "dmul a MInf = (if 0 < a then MInf else if a < 0 then PInf else NaN)"
| "dmul a NaN = NaN"

fun dle :: "dbl \<Rightarrow> real \<Rightarrow> bool" where
  "dle (Fin a) b = (a \<le> b)"
| "dle PInf b = False"
| "dle MInf b = True"
| "dle NaN b = False"

fun dexp :: "dbl \<Rightarrow> dbl" where
  "dexp (Fin a) = Fin (exp a)"
| "dexp PInf = PInf"
| "dexp MInf = Fin 0"
| "dexp NaN = NaN"

fun dsub :: "dbl \<Rightarrow> real \<Rightarrow> dbl" where
  "dsub (Fin a) b = Fin (a - b)"
| "dsub PInf b = PInf"
| "dsub MInf b = MInf"
| "dsub NaN b = NaN"

text \<open>
  The two divisions of \<^verbatim>\<open>q\<close>: a double by a finite number, and a finite number by a
  double. A zero divisor is reported as the error \<open>DivisionByZero\<close>; the value that IEEE
  gives the quotient then (an infinity, whose sign is that of the zero, or NaN) is not
  computed.
\<close>

datatype trap = DivisionByZero

fun ddiv :: "dbl \<Rightarrow> real \<Rightarrow> trap + dbl" where
  "ddiv (Fin a) b = (if b = 0 then Inl DivisionByZero else Inr (Fin (a / b)))"
| "ddiv PInf b =
     (if b = 0 then Inl DivisionByZero else if 0 < b then Inr PInf else Inr MInf)"
| "ddiv MInf b =
     (if b = 0 then Inl DivisionByZero else if 0 < b then Inr MInf else Inr PInf)"
| "ddiv NaN b = (if b = 0 then Inl DivisionByZero else Inr NaN)"

fun rdiv :: "real \<Rightarrow> dbl \<Rightarrow> trap + dbl" where
  "rdiv a (Fin b) = (if b = 0 then Inl DivisionByZero else Inr (Fin (a / b)))"
| "rdiv a PInf = Inr (Fin 0)"
| "rdiv a MInf = Inr (Fin 0)"
| "rdiv a NaN = Inr NaN"

section \<open>Constants of StFlow.h\<close>

text \<open>Offsets of the solution components in the slice of a flow domain, and of the liquid
  components behind the mass fractions; unit conversions of the vapour pressure.\<close>

definition c_offset_U :: nat where "c_offset_U = 0"
definition c_offset_V :: nat where "c_offset_V = 1"
definition c_offset_T :: nat where "c_offset_T = 2"
definition c_offset_L :: nat where "c_offset_L = 3"
definition c_offset_Y :: nat where "c_offset_Y = 4"

definition c_offset_Ul :: nat where "c_offset_Ul = 0"
definition c_offset_vl :: nat where "c_offset_vl = 1"
definition c_offset_Tl :: nat where "c_offset_Tl = 2"
definition c_offset_ml :: nat where "c_offset_ml = 3"
definition c_offset_nl :: nat where "c_offset_nl = 4"

definition mmHg2Pa :: real where "mmHg2Pa = 133.322365"
definition bar2Pa :: real where "bar2Pa = 100000"

section \<open>Sim1D: the solution vector and the continuation driver\<close>

text \<open>
  What Sim1D uses of a domain: the start of its slice in the global vector, its number
  of components and of grid points and, for an inlet, the mass flux that
  \<^verbatim>\<open>Inlet1D::setMdot\<close> stores.
\<close>

record domain1d =
  m_iloc :: nat
  m_nv :: nat
  m_points :: nat
  m_mdot :: real

text \<open>
  Modelled from the spec: \<^verbatim>\<open>Domain1D::index\<close> is declared in Domain1D.h, which is not
  among the sources. Section 3 of the specification has component \<open>c\<close> of local point
  \<open>j\<close> at a fixed offset inside the domain's slice; \<^verbatim>\<open>updateBounds\<close> in Sim1D.h
  addresses the same slot as \<^verbatim>\<open>j*nv + i\<close>.
\<close>

definition index :: "'a domain1d_scheme \<Rightarrow> nat \<Rightarrow> nat \<Rightarrow> nat" where
  "index d n j = m_nv d * j + n"

text \<open>
  Modelled from the spec: \<^verbatim>\<open>Inlet1D::setMdot\<close> (Inlet1D.h is not among the sources)
  installs the mass flux of an inlet domain.
\<close>

definition setMdot :: "real \<Rightarrow> domain1d \<Rightarrow> domain1d" where
  "setMdot mdot d = d\<lparr>m_mdot := mdot\<rparr>"

record sim1d =
  m_dom :: "domain1d list"
  m_x :: "real list"
  m_chi :: real
  m_amplify_threshold :: real
  m_uin_f :: real
  m_uin_o :: real
  m_rhoin_f :: real
  m_rhoin_o :: real
  lb :: "real list"
  ub :: "real list"

text \<open>
  Modelled from the spec: \<^verbatim>\<open>Sim1D::value\<close> and \<^verbatim>\<open>Sim1D::setValue\<close> are defined in
  Sim1D.cpp, which is not among the sources. They get and set the entry of the solution
  vector at (domain, component, local point); an entry out of range is an error.
\<close>

definition value_at :: "sim1d \<Rightarrow> nat \<Rightarrow> nat \<Rightarrow> nat \<Rightarrow> real option" where
  "value_at s dm cmp localPoint =
     (if dm < length (m_dom s)
      then rd (m_x s) (m_iloc (m_dom s ! dm) + index (m_dom s ! dm) cmp localPoint)
      else None)"

definition setValue :: "nat \<Rightarrow> nat \<Rightarrow> nat \<Rightarrow> real \<Rightarrow> sim1d \<Rightarrow> sim1d option" where
  "setValue dm cmp localPoint v s =
     (if dm < length (m_dom s)
      then map_option (\<lambda>xs. s\<lparr>m_x := xs\<rparr>)
             (wr (m_x s) (m_iloc (m_dom s ! dm) + index (m_dom s ! dm) cmp localPoint) v)
      else None)"

definition setFuelVelocity :: "real \<Rightarrow> sim1d \<Rightarrow> sim1d" where
  "setFuelVelocity uin_f s = s\<lparr>m_uin_f := uin_f\<rparr>"

definition setOxidizerVelocity :: "real \<Rightarrow> sim1d \<Rightarrow> sim1d" where
  "setOxidizerVelocity uin_o s = s\<lparr>m_uin_o := uin_o\<rparr>"

definition setFuelDensity :: "real \<Rightarrow> sim1d \<Rightarrow> sim1d" where
  "setFuelDensity rhoin_f s = s\<lparr>m_rhoin_f := rhoin_f\<rparr>"

definition setOxidizerDensity :: "real \<Rightarrow> sim1d \<Rightarrow> sim1d" where
  "setOxidizerDensity rhoin_o s = s\<lparr>m_rhoin_o := rhoin_o\<rparr>"

definition setAmplifyThreshold :: "real \<Rightarrow> sim1d \<Rightarrow> sim1d" where
  "setAmplifyThreshold a s = s\<lparr>m_amplify_threshold := a\<rparr>"

definition setStrainRateValue :: "real \<Rightarrow> sim1d \<Rightarrow> sim1d" where
  "setStrainRateValue a1 s = s\<lparr>m_chi := a1\<rparr>"

definition StrainRate :: "sim1d \<Rightarrow> real" where
  "StrainRate s = m_chi s"

text \<open>
  The loop of \<^verbatim>\<open>setStrainRate\<close> over the points of the flow domain (domain 1); the
  list holds the values that the loop counter still has to take.

  Modelled from the spec: \<^verbatim>\<open>StFlow::componentIndex\<close> is defined in StFlow.cpp, which is
  not among the sources. By the component table of section 3 of the specification
  \<^verbatim>\<open>componentIndex("u")\<close> and \<^verbatim>\<open>componentIndex("V")\<close> are the offsets 0 and 1, that is
  \<open>c_offset_U\<close> and \<open>c_offset_V\<close>.
\<close>

fun amplify :: "real \<Rightarrow> nat list \<Rightarrow> sim1d \<Rightarrow> sim1d option" where
  "amplify ratio [] s = Some s"
| "amplify ratio (i # is) s =
     do {
       u_loc \<leftarrow> value_at s 1 c_offset_U i;
       s1 \<leftarrow> setValue 1 c_offset_U i (u_loc * ratio) s;
       V_loc \<leftarrow> value_at s1 1 c_offset_V i;
       s2 \<leftarrow> setValue 1 c_offset_V i (V_loc * ratio) s1;
       amplify ratio is s2
     }"

text \<open>
  \<^verbatim>\<open>setStrainRate(int nvar, double* x)\<close>. The inlets are domains 0 and 2, the flow is
  domain 1. The inlet velocities and densities are copied into locals; the members are
  not assigned. The assignment to \<open>m_chi\<close> comes after the conditional.
\<close>

definition setStrainRate :: "int \<Rightarrow> real list \<Rightarrow> sim1d \<Rightarrow> sim1d option" where
  "setStrainRate nvar x s =
     (if nvar < 1 \<or> int (length x) < nvar then None
      else
        let a1 = x ! nat (nvar - 1) in
        do {
          s' \<leftarrow>
            (if \<bar>m_chi s - a1\<bar> > m_amplify_threshold s then
               (if length (m_dom s) < 3 then None
                else do {
                  ratio \<leftarrow> fdiv a1 (m_chi s);
                  s1 \<leftarrow> amplify ratio [0..<m_points (m_dom s ! 1)] s;
                  let uin_f = m_uin_f s1;
                  let uin_o = m_uin_o s1;
                  let rhoin_f = m_rhoin_f s1;
                  let rhoin_o = m_rhoin_o s1;
                  let uin_f = uin_f * ratio;
                  let uin_o = uin_o * ratio;
                  let mdot_f = rhoin_f * uin_f;
                  let s2 = s1\<lparr>m_dom := (m_dom s1)[0 := setMdot mdot_f (m_dom s1 ! 0)]\<rparr>;
                  let mdot_o = rhoin_o * uin_o;
                  let s3 = s2\<lparr>m_dom := (m_dom s2)[2 := setMdot mdot_o (m_dom s2 ! 2)]\<rparr>;
                  Some s3
                })
             else Some s);
          Some (s'\<lparr>m_chi := a1\<rparr>)
        })"


text \<open>The mass fluxes held by the fuel inlet (domain 0) and the oxidizer inlet (domain 2).\<close>

definition inlet_f_mdot :: "sim1d \<Rightarrow> real" where
  "inlet_f_mdot s = m_mdot (m_dom s ! 0)"

definition inlet_o_mdot :: "sim1d \<Rightarrow> real" where
  "inlet_o_mdot s = m_mdot (m_dom s ! 2)"

text \<open>
  A counterflow configuration: an inlet, the flow and a second inlet; the flow has at
  least the components U and V, and its slice lies inside the solution vector.
\<close>

definition counterflow :: "sim1d \<Rightarrow> bool" where
  "counterflow s \<longleftrightarrow>
     3 \<le> length (m_dom s) \<and> 2 \<le> m_nv (m_dom s ! 1) \<and>
     m_iloc (m_dom s ! 1) + m_nv (m_dom s ! 1) * m_points (m_dom s ! 1) \<le> length (m_x s)"

text \<open>The slots of U and V at the first \<open>k\<close> points of a slice that starts at \<open>loc\<close>.\<close>

definition uv_slot :: "nat \<Rightarrow> nat \<Rightarrow> nat \<Rightarrow> nat \<Rightarrow> bool" where
  "uv_slot loc nv k p = (\<exists>i<k. p = loc + nv * i \<or> p = loc + nv * i + 1)"

text \<open>
  A continuation run as the driver sees it: \<^verbatim>\<open>setStrainRate\<close> called with one
  augmented vector after the other.
\<close>

fun continuation_steps :: "(int \<times> real list) list \<Rightarrow> sim1d \<Rightarrow> sim1d option" where
  "continuation_steps [] s = Some s"
| "continuation_steps ((nvar, x) # cs) s = setStrainRate nvar x s \<bind> continuation_steps cs"

text \<open>
  A small counterflow state: two grid points with the components U, V, T, \<open>\<Lambda>\<close> and one
  mass fraction, strain rate 50, threshold 10, and inlet fluxes equal to density times
  velocity. \<open>x_aug chi\<close> is its solution vector with the strain rate \<open>chi\<close> in the last slot.
\<close>

definition sim0 :: sim1d where
  "sim0 =
     \<lparr>m_dom = [\<lparr>m_iloc = 0, m_nv = 0, m_points = 1, m_mdot = 3\<rparr>,
               \<lparr>m_iloc = 0, m_nv = 5, m_points = 2, m_mdot = 0\<rparr>,
               \<lparr>m_iloc = 10, m_nv = 0, m_points = 1, m_mdot = 8\<rparr>],
      m_x = [2, 4, 300, -1, 1, -2, 6, 310, -1, 1],
      m_chi = 50, m_amplify_threshold = 10,
      m_uin_f = 3, m_uin_o = 4, m_rhoin_f = 1, m_rhoin_o = 2,
      lb = [0, 0, 200, -100, 0, 0, 0, 200, -100, 0, 0],
      ub = [10, 10, 400, 100, 1, 10, 10, 400, 100, 1, 10000000000]\<rparr>"

definition x_aug :: "real \<Rightarrow> real list" where
  "x_aug chi = m_x sim0 @ [chi]"

text \<open>The states that the steps of the strain rate from 50 to 100 and from 100 to 150
  produce from \<open>sim0\<close> (lemmas \<open>run_100\<close> and \<open>run_150\<close>).\<close>

definition sim100 :: sim1d where
  "sim100 =
     sim0\<lparr>m_x := [4, 8, 300, -1, 1, -4, 12, 310, -1, 1],
          m_dom := [\<lparr>m_iloc = 0, m_nv = 0, m_points = 1, m_mdot = 6\<rparr>,
                    \<lparr>m_iloc = 0, m_nv = 5, m_points = 2, m_mdot = 0\<rparr>,
                    \<lparr>m_iloc = 10, m_nv = 0, m_points = 1, m_mdot = 16\<rparr>],
          m_chi := 100\<rparr>"

definition sim150 :: sim1d where
  "sim150 =
     sim0\<lparr>m_x := [6, 12, 300, -1, 1, -6, 18, 310, -1, 1],
          m_dom := [\<lparr>m_iloc = 0, m_nv = 0, m_points = 1, m_mdot = 9 / 2\<rparr>,
                    \<lparr>m_iloc = 0, m_nv = 5, m_points = 2, m_mdot = 0\<rparr>,
                    \<lparr>m_iloc = 10, m_nv = 0, m_points = 1, m_mdot = 12\<rparr>],
          m_chi := 150\<rparr>"

section \<open>Sim1D: the bounded residue of the continuation driver\<close>

text \<open>
  \<^verbatim>\<open>setSolution\<close> copies as many entries as the solution vector has from the array it is
  given; a shorter array would be read past its end.
\<close>

definition setSolution :: "real list \<Rightarrow> sim1d \<Rightarrow> sim1d option" where
  "setSolution soln s =
     (if length (m_x s) \<le> length soln then Some (s\<lparr>m_x := take (length (m_x s)) soln\<rparr>)
      else None)"

text \<open>
  \<^verbatim>\<open>getResidual(rdt, resid)\<close> calls \<^verbatim>\<open>OneDim::eval(npos, m_x.data(), resid, rdt, 0)\<close>.
  OneDim.h is not among the sources: the residual evaluation is the parameter \<open>ev\<close>, which
  maps the simulation, \<open>rdt\<close> and the old contents of the residual array to its new
  contents.
\<close>

definition getResidual ::
  "(sim1d \<Rightarrow> real \<Rightarrow> real list \<Rightarrow> real list) \<Rightarrow> real \<Rightarrow> real list \<Rightarrow> sim1d \<Rightarrow> real list" where
  "getResidual ev rdt resid s = ev s rdt resid"

text \<open>
  The first loop of \<^verbatim>\<open>bound_residue\<close>: it reads \<open>x\<close>, \<open>lb\<close> and \<open>ub\<close> and writes the
  local vector \<open>xBorder\<close> and the local \<open>excess\<close>. The upper bound is looked at only when
  the lower bound is not violated.
\<close>

fun project_loop ::
  "real list \<Rightarrow> real list \<Rightarrow> real list \<Rightarrow> nat list \<Rightarrow> real list \<times> real \<Rightarrow> (real list \<times> real) option" where
  "project_loop x lbs ubs [] acc = Some acc"
| "project_loop x lbs ubs (i # is) (xBorder, excess) =
     do {
       xi \<leftarrow> rd x i;
       l \<leftarrow> rd lbs i;
       if xi < l then do {
         xBorder' \<leftarrow> wr xBorder i l;
         project_loop x lbs ubs is (xBorder', excess + (l - xi))
       } else do {
         u \<leftarrow> rd ubs i;
         if xi > u then do {
           xBorder' \<leftarrow> wr xBorder i u;
           project_loop x lbs ubs is (xBorder', excess + (xi - u))
         } else do {
           xBorder' \<leftarrow> wr xBorder i xi;
           project_loop x lbs ubs is (xBorder', excess)
         }
       }
     }"

text \<open>The second loop: the perturbation is \<open>minIncr\<close> for a positive residual and
  \<open>-minIncr\<close> otherwise, zero included.\<close>

fun perturb_loop :: "real \<Rightarrow> real \<Rightarrow> nat list \<Rightarrow> real list \<Rightarrow> real list option" where
  "perturb_loop minIncr excess [] f = Some f"
| "perturb_loop minIncr excess (i # is) f =
     do {
       fi \<leftarrow> rd f i;
       let perturb = (if fi > 0 then minIncr else - minIncr);
       f' \<leftarrow> wr f i (fi + (fi + perturb) * excess);
       perturb_loop minIncr excess is f'
     }"

text \<open>
  \<^verbatim>\<open>bound_residue(int* nvar, double* fpar, int* ipar, double* x, double* f)\<close>, on the
  contents of the arrays; \<open>fpar\<close> and \<open>ipar\<close> are not used. The arrays \<open>x\<close> and \<open>f\<close> are the
  caller's, not vectors of the simulation; \<open>x\<close> is only read. The result is the new
  contents of \<open>f\<close> and the new simulation. A negative \<open>nvar\<close> makes the allocation of
  \<open>xBorder\<close> fail.
\<close>

definition bound_residue ::
  "(sim1d \<Rightarrow> real \<Rightarrow> real list \<Rightarrow> real list) \<Rightarrow> int \<Rightarrow> real list \<Rightarrow> real list \<Rightarrow> sim1d
     \<Rightarrow> (real list \<times> sim1d) option" where
  "bound_residue ev nvar x f s =
     (if nvar < 0 then None
      else do {
        (xBorder, excess) \<leftarrow>
          project_loop x (lb s) (ub s) [0..<nat nvar] (replicate (nat nvar) 0, 0);
        s1 \<leftarrow> setSolution xBorder s;
        let f1 = getResidual ev 0 f s1;
        let minIncr = 1 / 1000;
        f2 \<leftarrow> perturb_loop minIncr excess [0..<nat nvar] f1;
        Some (f2, s1)
      })"



text \<open>What one pass of the first loop stores and adds, and what one pass of the second
  loop stores.\<close>

definition proj1 :: "real \<Rightarrow> real \<Rightarrow> real \<Rightarrow> real" where
  "proj1 l u xi = (if xi < l then l else if xi > u then u else xi)"

definition exc1 :: "real \<Rightarrow> real \<Rightarrow> real \<Rightarrow> real" where
  "exc1 l u xi = (if xi < l then l - xi else if xi > u then xi - u else 0)"

definition penalty :: "real \<Rightarrow> real \<Rightarrow> real \<Rightarrow> real" where
  "penalty minIncr excess fi = fi + (fi + (if fi > 0 then minIncr else - minIncr)) * excess"

text \<open>
  A residual for the examples: \<open>x\<^sub>i - 1\<close> in the slots of the solution vector, the rest of
  the array left as it was. \<open>x_out\<close> leaves the bounds of \<open>sim0\<close> in two components, by 2
  each; \<open>sim_out\<close>, \<open>r_out\<close> and \<open>f_out\<close> are the simulation, the residual and the output that
  \<open>bound_residue\<close> produces from it (lemmas \<open>run_bound\<close> and \<open>residual_out\<close>).
\<close>

definition eval_demo :: "sim1d \<Rightarrow> real \<Rightarrow> real list \<Rightarrow> real list" where
  "eval_demo s rdt resid =
     map (\<lambda>(v, r). v - 1) (zip (m_x s) resid) @ drop (length (m_x s)) resid"

definition x_out :: "real list" where
  "x_out = [12, 4, 300, -1, 1, -2, 6, 310, -1, 1, 50]"

definition f_in :: "real list" where
  "f_in = [0, 0, 0, 0, 0, 0, 0, 0, 0, 0, 0]"

definition sim_out :: sim1d where
  "sim_out = sim0\<lparr>m_x := [10, 4, 300, -1, 1, 0, 6, 310, -1, 1]\<rparr>"

definition r_out :: "real list" where
  "r_out = [9, 3, 299, -2, 0, -1, 5, 309, -2, 0, 0]"

definition f_out :: "real list" where
  "f_out = [45004 / 1000, 15004 / 1000, 1495004 / 1000, - (10004 / 1000), - (4 / 1000),
            - (5004 / 1000), 25004 / 1000, 1545004 / 1000, - (10004 / 1000), - (4 / 1000),
            - (4 / 1000)]"


section \<open>StFlow: the flow domain and its upwind derivatives\<close>

text \<open>
  A flow domain is a \<^verbatim>\<open>Domain1D\<close> with a grid \<open>m_z\<close>, the grid spacings \<open>m_dz\<close>, the
  pressure, and per-point caches of the thermodynamic and transport properties. The
  argument \<open>x\<close> of the member functions is the slice of the solution vector that belongs
  to the domain. \<^verbatim>\<open>std::vector::operator[]\<close> is unchecked: an index outside the vector
  yields \<open>None\<close>.
\<close>

record stflow = domain1d +
  m_z :: "real list"
  m_press :: real
  m_dz :: "real list"
  m_rho :: "real list"
  m_wtm :: "real list"
  m_wt :: "real list"
  m_cp :: "real list"
  m_visc :: "real list"
  m_diff :: "real list"
  m_nsp :: nat

text \<open>
  Modelled from the spec: \<^verbatim>\<open>Domain1D::z\<close> (Domain1D.h is not among the sources) is the
  axial coordinate of a grid point.
\<close>

definition z :: "'a stflow_scheme \<Rightarrow> nat \<Rightarrow> real option" where
  "z s jlocal = rd (m_z s) jlocal"

text \<open>The solution components at point \<open>j\<close>. The source calls them \<open>T\<close>, \<open>u\<close>, \<open>V\<close> and
  \<open>Y\<close>.\<close>

definition T_of :: "'a stflow_scheme \<Rightarrow> real list \<Rightarrow> nat \<Rightarrow> real option" where
  "T_of s x j = rd x (index s c_offset_T j)"

definition u_of :: "'a stflow_scheme \<Rightarrow> real list \<Rightarrow> nat \<Rightarrow> real option" where
  "u_of s x j = rd x (index s c_offset_U j)"

definition V_of :: "'a stflow_scheme \<Rightarrow> real list \<Rightarrow> nat \<Rightarrow> real option" where
  "V_of s x j = rd x (index s c_offset_V j)"

definition Y_of :: "'a stflow_scheme \<Rightarrow> real list \<Rightarrow> nat \<Rightarrow> nat \<Rightarrow> real option" where
  "Y_of s x k j = rd x (index s (c_offset_Y + k) j)"

text \<open>
  The convective derivatives. \<open>jloc\<close> is a \<^verbatim>\<open>size_t\<close>: for \<open>jloc = 0\<close> the index
  \<open>jloc - 1\<close> wraps around to the largest \<^verbatim>\<open>size_t\<close>, far outside every vector.
\<close>

definition dVdz :: "'a stflow_scheme \<Rightarrow> real list \<Rightarrow> nat \<Rightarrow> real option" where
  "dVdz s x j =
     do {
       uj \<leftarrow> u_of s x j;
       let jloc = (if uj > 0 then j else j + 1);
       if jloc = 0 then None
       else do {
         a \<leftarrow> V_of s x jloc;
         b \<leftarrow> V_of s x (jloc - 1);
         d \<leftarrow> rd (m_dz s) (jloc - 1);
         fdiv (a - b) d
       }
     }"

definition dYdz :: "'a stflow_scheme \<Rightarrow> real list \<Rightarrow> nat \<Rightarrow> nat \<Rightarrow> real option" where
  "dYdz s x k j =
     do {
       uj \<leftarrow> u_of s x j;
       let jloc = (if uj > 0 then j else j + 1);
       if jloc = 0 then None
       else do {
         a \<leftarrow> Y_of s x k jloc;
         b \<leftarrow> Y_of s x k (jloc - 1);
         d \<leftarrow> rd (m_dz s) (jloc - 1);
         fdiv (a - b) d
       }
     }"

definition dTdz :: "'a stflow_scheme \<Rightarrow> real list \<Rightarrow> nat \<Rightarrow> real option" where
  "dTdz s x j =
     do {
       uj \<leftarrow> u_of s x j;
       let jloc = (if uj > 0 then j else j + 1);
       if jloc = 0 then None
       else do {
         a \<leftarrow> T_of s x jloc;
         b \<leftarrow> T_of s x (jloc - 1);
         d \<leftarrow> rd (m_dz s) (jloc - 1);
         fdiv (a - b) d
       }
     }"

text \<open>
  Modelled from the spec: \<open>m_dz\<close> is filled by \<^verbatim>\<open>StFlow::setupGrid\<close> (StFlow.cpp, not
  among the sources). By section 2 of the specification a grid is an ordered sequence of
  coordinates with the derived spacings \<open>\<Delta>z\<^sub>j = z\<^sub>j\<^sub>+\<^sub>1 - z\<^sub>j\<close>; this is the invariant of a
  flow domain that the derivatives rely on.
\<close>

definition grid_ok :: "'a stflow_scheme \<Rightarrow> bool" where
  "grid_ok s \<longleftrightarrow>
     length (m_z s) = m_points s \<and> length (m_dz s) + 1 = m_points s \<and>
     (\<forall>j. j + 1 < m_points s \<longrightarrow>
        m_dz s ! j = m_z s ! (j + 1) - m_z s ! j \<and> m_z s ! j < m_z s ! (j + 1))"

text \<open>A flow with three grid points and one species, and a solution slice for it.\<close>

definition flow0 :: stflow where
  "flow0 =
     \<lparr>m_iloc = 0, m_nv = 5, m_points = 3, m_mdot = 0,
      m_z = [0, 1, 3], m_press = 200000, m_dz = [1, 2],
      m_rho = [1, 1, 1], m_wtm = [2, 2, 2], m_wt = [2], m_cp = [1000, 1000, 1000],
      m_visc = [1, 1, 1], m_diff = [1, 1, 1], m_nsp = 1\<rparr>"

definition x_flow :: "real list" where
  "x_flow = [2, 4, 300, -1, 1,    -2, 6, 310, -1, 1 / 2,    -3, 9, 330, -1, 0]"

section \<open>SprayFlame: the liquid phase closures\<close>

record sprayflame = stflow +
  c_offset_fuel :: nat
  m_prs_A :: real
  m_prs_B :: real
  m_prs_C :: real
  m_Tb :: real
  m_cvt :: real
  m_rhol_A :: real
  m_rhol_B :: real
  m_rhol_C :: real
  m_rhol_D :: real
  m_cpl :: real

text \<open>The trailing underscore of the parameter names of the source is written as a
  prime.\<close>

definition setLiquidDensityParam :: "real \<Rightarrow> real \<Rightarrow> real \<Rightarrow> real \<Rightarrow> sprayflame \<Rightarrow> sprayflame" where
  "setLiquidDensityParam A' B' C' D' s =
     s\<lparr>m_rhol_A := A', m_rhol_B := B', m_rhol_C := C', m_rhol_D := D'\<rparr>"

text \<open>
  \<^verbatim>\<open>setLiquidVapPressParam\<close>: the conditional has a branch for \<^verbatim>\<open>"mmHg"\<close>, one for
  \<^verbatim>\<open>"bar"\<close> and no \<^verbatim>\<open>else\<close>; the function has no \<^verbatim>\<open>throw\<close>.
\<close>

definition setLiquidVapPressParam ::
  "real \<Rightarrow> real \<Rightarrow> real \<Rightarrow> real \<Rightarrow> string \<Rightarrow> sprayflame \<Rightarrow> sprayflame" where
  "setLiquidVapPressParam A' B' C' Tb' unit' s =
     (if unit' = ''mmHg'' then
        s\<lparr>m_prs_A := A', m_prs_B := B', m_prs_C := C' - 273.15, m_Tb := Tb', m_cvt := mmHg2Pa\<rparr>
      else if unit' = ''bar'' then
        s\<lparr>m_prs_A := A', m_prs_B := B', m_prs_C := C', m_Tb := Tb', m_cvt := bar2Pa\<rparr>
      else s)"

text \<open>The liquid components follow the \<open>m_nsp\<close> mass fractions. The source calls them
  \<open>Tl\<close> and \<open>ml\<close>.\<close>

definition Tl_of :: "sprayflame \<Rightarrow> real list \<Rightarrow> nat \<Rightarrow> real option" where
  "Tl_of s x j = rd x (index s (c_offset_Y + m_nsp s + c_offset_Tl) j)"

definition ml_of :: "sprayflame \<Rightarrow> real list \<Rightarrow> nat \<Rightarrow> real option" where
  "ml_of s x j = rd x (index s (c_offset_Y + m_nsp s + c_offset_ml) j)"

text \<open>The liquid density: the constant \<open>m_rhol_A\<close> when the other three coefficients are
  below \<open>\<surd>\<epsilon>\<close> in absolute value, DIPPR 105 otherwise. In the DIPPR branch with
  \<open>m_rhol_C = 0\<close> the quotient \<open>T\<^sub>l / C\<close> is not finite and the model is \<open>None\<close>.\<close>

definition rhol :: "sprayflame \<Rightarrow> real list \<Rightarrow> nat \<Rightarrow> real option" where
  "rhol s x j =
     (if \<bar>m_rhol_B s - 0\<bar> < sqrt_dbl_min \<and> \<bar>m_rhol_C s - 0\<bar> < sqrt_dbl_min \<and>
         \<bar>m_rhol_D s - 0\<bar> < sqrt_dbl_min
      then Some (m_rhol_A s)
      else do {
        tliq \<leftarrow> Tl_of s x j;
        t \<leftarrow> fdiv tliq (m_rhol_C s);
        p \<leftarrow> fpow (1 - t) (m_rhol_D s);
        d \<leftarrow> fpow (m_rhol_B s) (1 + p);
        fdiv (m_rhol_A s) d
      })"

text \<open>The droplet diameter.\<close>

definition dl :: "sprayflame \<Rightarrow> real list \<Rightarrow> nat \<Rightarrow> real option" where
  "dl s x j =
     do {
       m \<leftarrow> ml_of s x j;
       if m < sqrt_dbl_min then Some 0
       else do {
         r \<leftarrow> rhol s x j;
         t \<leftarrow> fdiv (6 * m / pi) r;
         fpow t (1 / 3)
       }
     }"

definition Dgf :: "sprayflame \<Rightarrow> nat \<Rightarrow> real option" where
  "Dgf s j = rd (m_diff s) (c_offset_fuel s + j * m_nsp s)"

text \<open>The vapour pressure (Antoine, at the boiling point \<open>m_Tb\<close>); \<open>x\<close> and \<open>j\<close> are not used.
  With \<open>m_prs_C + m_Tb = 0\<close> the quotient is not finite and the model is \<open>None\<close>.\<close>

definition prs :: "sprayflame \<Rightarrow> real list \<Rightarrow> nat \<Rightarrow> real option" where
  "prs s x j =
     do {
       t \<leftarrow> fdiv (m_prs_B s) (m_prs_C s + m_Tb s);
       p \<leftarrow> fpow 10 (m_prs_A s - t);
       Some (p * m_cvt s)
     }"

definition cpgf :: "sprayflame \<Rightarrow> real list \<Rightarrow> nat \<Rightarrow> real option" where
  "cpgf s x j = rd (m_cp s) j"

definition Yrs :: "sprayflame \<Rightarrow> real list \<Rightarrow> nat \<Rightarrow> real option" where
  "Yrs s x j =
     do {
       p \<leftarrow> prs s x j;
       Xrs \<leftarrow> fdiv p (m_press s);
       wf \<leftarrow> rd (m_wt s) (c_offset_fuel s);
       wtm \<leftarrow> rd (m_wtm s) j;
       fdiv (wf * Xrs) (wf * Xrs + (1 - Xrs) * wtm)
     }"

text \<open>The evaporation rate, where it is a finite number.\<close>

definition mdot :: "sprayflame \<Rightarrow> real list \<Rightarrow> nat \<Rightarrow> real option" where
  "mdot s x j =
     do {
       Yrs' \<leftarrow> Yrs s x j;
       Yf \<leftarrow> Y_of s x (c_offset_fuel s) j;
       let Bm = (Yrs' - Yf) / max (1 - Yrs') sqrt_dbl_min;
       d \<leftarrow> dl s x j;
       rho \<leftarrow> rd (m_rho s) j;
       D \<leftarrow> Dgf s j;
       l \<leftarrow> flog (1 + Bm);
       Some (2 * pi * d * rho * D * l)
     }"

text \<open>
  The evaporation rate as the double that \<^verbatim>\<open>mdot\<close> returns: the same product, with the
  values that \<^verbatim>\<open>std::log\<close> has at and below 0 and that the last multiplication makes of
  them (lemma \<open>mdot_finite\<close>: \<open>mdot\<close> is its finite part).
\<close>

definition mdot_dbl :: "sprayflame \<Rightarrow> real list \<Rightarrow> nat \<Rightarrow> dbl option" where
  "mdot_dbl s x j =
     do {
       Yrs' \<leftarrow> Yrs s x j;
       Yf \<leftarrow> Y_of s x (c_offset_fuel s) j;
       let Bm = (Yrs' - Yf) / max (1 - Yrs') sqrt_dbl_min;
       d \<leftarrow> dl s x j;
       rho \<leftarrow> rd (m_rho s) j;
       D \<leftarrow> Dgf s j;
       Some (dmul (2 * pi * d * rho * D) (dlog (1 + Bm)))
     }"

text \<open>
  The convective heat transfer, which the source calls \<open>q\<close>. The guard compares the double
  that \<^verbatim>\<open>mdot\<close> returns, whatever it is; the \<^verbatim>\<open>else\<close> branch divides first by
  \<^verbatim>\<open>2.0*Pi*m_rho[j]*Dgf(j)*dl(x,j)\<close> and then by \<^verbatim>\<open>BT\<close>.
\<close>

definition q_of :: "sprayflame \<Rightarrow> real list \<Rightarrow> nat \<Rightarrow> (trap + dbl) option" where
  "q_of s x j =
     do {
       m \<leftarrow> mdot_dbl s x j;
       if dle m sqrt_dbl_min then Some (Inr (Fin 0))
       else do {
         rho \<leftarrow> rd (m_rho s) j;
         D \<leftarrow> Dgf s j;
         d \<leftarrow> dl s x j;
         (case ddiv m (2 * pi * rho * D * d) of
            Inl err \<Rightarrow> Some (Inl err)
          | Inr e \<Rightarrow>
              do {
                let BT = dsub (dexp e) 1;
                cp \<leftarrow> cpgf s x j;
                t \<leftarrow> T_of s x j;
                tliq \<leftarrow> Tl_of s x j;
                Some (rdiv (cp * (t - tliq)) BT)
              })
       }
     }"

text \<open>
  A spray flame with four grid points and one species, which is the fuel; the components
  at a point are \<open>U, V, T, \<Lambda>, Y, U\<^sub>l, v\<^sub>l, T\<^sub>l, m\<^sub>l, n\<^sub>l\<close>. \<open>spray0\<close> has a constant liquid
  density, \<open>spray1\<close> the DIPPR 105 coefficients \<open>(6, 1, 600, 1)\<close>. In \<open>x_spray\<close> the
  droplet mass is 0 at the points 0, 1 and 3 and \<open>\<pi>\<close> at point 2; the fuel mass fraction
  is 1 at point 3.
\<close>

definition spray_base :: sprayflame where
  "spray_base =
     \<lparr>m_iloc = 0, m_nv = 10, m_points = 4, m_mdot = 0,
      m_z = [0, 1, 3, 4], m_press = 200000, m_dz = [1, 2, 1],
      m_rho = [1, 1, 1, 1], m_wtm = [2, 2, 2, 2], m_wt = [2], m_cp = [1000, 1000, 1000, 1000],
      m_visc = [1, 1, 1, 1], m_diff = [1, 1, 1, 1], m_nsp = 1,
      c_offset_fuel = 0, m_prs_A = 0, m_prs_B = 0, m_prs_C = 0, m_Tb = 0, m_cvt = 0,
      m_rhol_A = 0, m_rhol_B = 0, m_rhol_C = 0, m_rhol_D = 0, m_cpl = 2000\<rparr>"

definition spray0 :: sprayflame where
  "spray0 = setLiquidVapPressParam 0 0 0 1 ''bar'' (setLiquidDensityParam 6 0 0 0 spray_base)"

definition spray1 :: sprayflame where
  "spray1 = setLiquidDensityParam 6 1 600 1 spray0"

definition x_spray :: "real list" where
  "x_spray =
     [-1, 0, 400, -1, 1 / 4, 0, -1, 300, 0, 0,
      -1, 0, 400, -1, 1 / 4, 0, -1, 300, 0, 0,
      -2, 1, 500, -1, 0,     0, -1, 300, pi, 5,
      -2, 0, 300, -1, 1,     0, -1, 300, 0, 0]"

text \<open>\<open>x_wet\<close> has the droplet mass \<open>\<pi>\<close> at the points 2 and 3, with the fuel mass fraction
  2 at point 2 and 1 (pure fuel) at point 3.\<close>

definition x_wet :: "real list" where
  "x_wet =
     [-1, 0, 400, -1, 1 / 4, 0, -1, 300, 0, 0,
      -1, 0, 400, -1, 1 / 4, 0, -1, 300, 0, 0,
      -2, 1, 500, -1, 2,     0, -1, 300, pi, 5,
      -2, 0, 300, -1, 1,     0, -1, 300, pi, 5]"

section \<open>Properties of setStrainRate\<close>

lemma mult_step: "i < k \<Longrightarrow> nv * i + nv \<le> nv * (k::nat)"
proof -
  assume "i < k"
  then have "nv * Suc i \<le> nv * k" by (intro mult_le_mono2) simp
  then show ?thesis by simp
qed

lemma amplify_append:
  "amplify r (xs @ ys) s = amplify r xs s \<bind> amplify r ys"
  by (induction xs arbitrary: s) (auto split: bind_splits)

lemma uv_slot_Suc:
  "uv_slot loc nv (Suc k) p \<longleftrightarrow> uv_slot loc nv k p \<or> p = loc + nv * k \<or> p = loc + nv * k + 1"
  by (auto simp: uv_slot_def less_Suc_eq)

lemma uv_slot_fresh:
  assumes "2 \<le> nv"
  shows "\<not> uv_slot loc nv k (loc + nv * k)" "\<not> uv_slot loc nv k (loc + nv * k + 1)"
  using assms mult_step[of _ k nv] by (fastforce simp: uv_slot_def)+

lemma uv_slot_U: "j < k \<Longrightarrow> uv_slot loc nv k (loc + nv * j)"
  and uv_slot_V: "j < k \<Longrightarrow> uv_slot loc nv k (loc + nv * j + 1)"
  by (auto simp: uv_slot_def)

lemma flow_slot_in_range:
  assumes "2 \<le> nv" "loc + nv * k \<le> n" "j < k"
  shows "loc + nv * j + 1 < (n::nat)"
  using assms mult_step[of j k nv] by linarith

text \<open>One pass of the loop body scales the U and the V slot of point \<open>k\<close>.\<close>

lemma amplify_step:
  assumes dm: "1 < length (m_dom s)"
    and nv: "2 \<le> m_nv (m_dom s ! 1)"
    and len: "m_iloc (m_dom s ! 1) + m_nv (m_dom s ! 1) * k + 1 < length (m_x s)"
  shows "amplify r [k] s =
     Some (s\<lparr>m_x := (m_x s)[m_iloc (m_dom s ! 1) + m_nv (m_dom s ! 1) * k :=
                          m_x s ! (m_iloc (m_dom s ! 1) + m_nv (m_dom s ! 1) * k) * r,
                        m_iloc (m_dom s ! 1) + m_nv (m_dom s ! 1) * k + 1 :=
                          m_x s ! (m_iloc (m_dom s ! 1) + m_nv (m_dom s ! 1) * k + 1) * r]\<rparr>)"
  using assms
  by (simp add: value_at_def setValue_def rd_def wr_def index_def c_offset_U_def c_offset_V_def)

text \<open>The loop invariant: after \<open>k\<close> passes exactly the U and V slots of the first
  \<open>k\<close> points have been multiplied by the ratio, once each.\<close>

lemma amplify_upt:
  assumes dm: "1 < length (m_dom s)"
    and nv: "2 \<le> m_nv (m_dom s ! 1)"
    and len: "m_iloc (m_dom s ! 1) + m_nv (m_dom s ! 1) * k \<le> length (m_x s)"
  shows "\<exists>xs. amplify r [0..<k] s = Some (s\<lparr>m_x := xs\<rparr>) \<and> length xs = length (m_x s) \<and>
           (\<forall>p < length (m_x s). xs ! p =
              (if uv_slot (m_iloc (m_dom s ! 1)) (m_nv (m_dom s ! 1)) k p
               then m_x s ! p * r else m_x s ! p))"
  using len
proof (induction k)
  case 0
  show ?case by (rule exI[of _ "m_x s"]) (simp add: uv_slot_def)
next
  case (Suc k)
  let ?loc = "m_iloc (m_dom s ! 1)" and ?nv = "m_nv (m_dom s ! 1)"
  from Suc.prems nv have in_range: "?loc + ?nv * k + 1 < length (m_x s)" by simp
  then have "?loc + ?nv * k \<le> length (m_x s)" by simp
  from Suc.IH[OF this] obtain xs where
    run: "amplify r [0..<k] s = Some (s\<lparr>m_x := xs\<rparr>)"
    and lxs: "length xs = length (m_x s)"
    and vals: "\<forall>p < length (m_x s). xs ! p =
              (if uv_slot ?loc ?nv k p then m_x s ! p * r else m_x s ! p)"
    by blast
  let ?s = "s\<lparr>m_x := xs\<rparr>"
  let ?ys = "xs[?loc + ?nv * k := xs ! (?loc + ?nv * k) * r,
                ?loc + ?nv * k + 1 := xs ! (?loc + ?nv * k + 1) * r]"
  have step: "amplify r [k] ?s = Some (?s\<lparr>m_x := ?ys\<rparr>)"
    using amplify_step[of ?s k r] dm nv in_range lxs by simp
  have "amplify r [0..<Suc k] s = Some (s\<lparr>m_x := ?ys\<rparr>)"
    using run step by (simp add: amplify_append)
  moreover have "length ?ys = length (m_x s)" using lxs by simp
  moreover have "\<forall>p < length (m_x s). ?ys ! p =
              (if uv_slot ?loc ?nv (Suc k) p then m_x s ! p * r else m_x s ! p)"
  proof (intro allI impI)
    fix p assume p: "p < length (m_x s)"
    consider "p = ?loc + ?nv * k" | "p = ?loc + ?nv * k + 1"
      | "p \<noteq> ?loc + ?nv * k" "p \<noteq> ?loc + ?nv * k + 1" by blast
    then show "?ys ! p = (if uv_slot ?loc ?nv (Suc k) p then m_x s ! p * r else m_x s ! p)"
    proof cases
      case 1
      then show ?thesis
        using p lxs vals uv_slot_fresh(1)[OF nv, of ?loc k] by (simp add: uv_slot_Suc)
    next
      case 2
      then show ?thesis
        using p lxs vals uv_slot_fresh(2)[OF nv, of ?loc k] by (simp add: uv_slot_Suc)
    next
      case 3
      then show ?thesis using p lxs vals by (simp add: uv_slot_Suc)
    qed
  qed
  ultimately show ?case by blast
qed

text \<open>The loop writes to the solution vector only.\<close>

lemma setValue_frame:
  "setValue dm cmp j v s = Some s' \<Longrightarrow> \<exists>xs. s' = s\<lparr>m_x := xs\<rparr>"
  by (auto simp: setValue_def split: if_splits)

lemma amplify_frame:
  "amplify r is s = Some s' \<Longrightarrow> \<exists>xs. s' = s\<lparr>m_x := xs\<rparr>"
proof (induction "is" arbitrary: s)
  case Nil
  then have "s' = s\<lparr>m_x := m_x s\<rparr>" by simp
  then show ?case by (rule exI)
next
  case (Cons i "is")
  from Cons.prems obtain s1 s2 u v where
    s1: "setValue 1 c_offset_U i u s = Some s1"
    and s2: "setValue 1 c_offset_V i v s1 = Some s2"
    and rest: "amplify r is s2 = Some s'"
    by (auto split: bind_splits)
  from setValue_frame[OF s1] setValue_frame[OF s2] Cons.IH[OF rest]
  obtain xs1 xs2 xs3 where "s1 = s\<lparr>m_x := xs1\<rparr>" "s2 = s1\<lparr>m_x := xs2\<rparr>" "s' = s2\<lparr>m_x := xs3\<rparr>"
    by blast
  then have "s' = s\<lparr>m_x := xs3\<rparr>" by simp
  then show ?case by blast
qed

text \<open>What an amplifying call returns, when it returns.\<close>

lemma setStrainRate_amplify_result:
  assumes run: "setStrainRate nvar x s = Some s'"
    and gate: "\<bar>x ! nat (nvar - 1) - m_chi s\<bar> > m_amplify_threshold s"
  shows "3 \<le> length (m_dom s) \<and> m_chi s \<noteq> 0 \<and>
         (\<exists>xs. s' = s\<lparr>m_x := xs,
                     m_dom := (m_dom s)[0 := setMdot (m_rhoin_f s * (m_uin_f s * (x ! nat (nvar - 1) / m_chi s))) (m_dom s ! 0),
                                        2 := setMdot (m_rhoin_o s * (m_uin_o s * (x ! nat (nvar - 1) / m_chi s))) (m_dom s ! 2)],
                     m_chi := x ! nat (nvar - 1)\<rparr>)"
proof -
  let ?r = "x ! nat (nvar - 1) / m_chi s"
  from gate have gate': "\<bar>m_chi s - x ! nat (nvar - 1)\<bar> > m_amplify_threshold s"
    by (simp add: abs_minus_commute)
  with run obtain s1 where three: "3 \<le> length (m_dom s)" and chi: "m_chi s \<noteq> 0"
    and loop: "amplify ?r [0..<m_points (m_dom s ! 1)] s = Some s1"
    and s': "s' = s1\<lparr>m_dom := (m_dom s1)[0 := setMdot (m_rhoin_f s1 * (m_uin_f s1 * ?r)) (m_dom s1 ! 0),
                                  2 := setMdot (m_rhoin_o s1 * (m_uin_o s1 * ?r)) (m_dom s1 ! 2)],
                     m_chi := x ! nat (nvar - 1)\<rparr>"
    by (auto simp: setStrainRate_def fdiv_def Let_def split: if_splits bind_splits)
  from amplify_frame[OF loop] obtain xs where "s1 = s\<lparr>m_x := xs\<rparr>" by blast
  with s' have "s' = s\<lparr>m_x := xs,
                     m_dom := (m_dom s)[0 := setMdot (m_rhoin_f s * (m_uin_f s * ?r)) (m_dom s ! 0),
                                        2 := setMdot (m_rhoin_o s * (m_uin_o s * ?r)) (m_dom s ! 2)],
                     m_chi := x ! nat (nvar - 1)\<rparr>"
    by simp
  with three chi show ?thesis by blast
qed

lemma setStrainRate_no_amplify:
  assumes "1 \<le> nvar" "nvar \<le> int (length x)"
    and "\<bar>x ! nat (nvar - 1) - m_chi s\<bar> \<le> m_amplify_threshold s"
  shows "setStrainRate nvar x s = Some (s\<lparr>m_chi := x ! nat (nvar - 1)\<rparr>)"
  using assms by (simp add: setStrainRate_def abs_minus_commute)

lemma setStrainRate_members:
  assumes "setStrainRate nvar x s = Some s'"
  shows "m_uin_f s' = m_uin_f s \<and> m_uin_o s' = m_uin_o s \<and>
         m_rhoin_f s' = m_rhoin_f s \<and> m_rhoin_o s' = m_rhoin_o s \<and>
         m_amplify_threshold s' = m_amplify_threshold s"
proof (cases "\<bar>x ! nat (nvar - 1) - m_chi s\<bar> > m_amplify_threshold s")
  case False
  with assms show ?thesis
    by (auto simp: setStrainRate_def Let_def abs_minus_commute split: if_splits)
next
  case True
  from setStrainRate_amplify_result[OF assms True] show ?thesis by auto
qed

lemma continuation_steps_members:
  "continuation_steps cs s = Some s' \<Longrightarrow>
     m_uin_f s' = m_uin_f s \<and> m_uin_o s' = m_uin_o s \<and>
     m_rhoin_f s' = m_rhoin_f s \<and> m_rhoin_o s' = m_rhoin_o s \<and>
     m_amplify_threshold s' = m_amplify_threshold s"
proof (induction cs arbitrary: s)
  case Nil
  then show ?case by simp
next
  case (Cons c cs)
  obtain nvar x where c: "c = (nvar, x)" by (cases c)
  with Cons.prems obtain s1 where
    one: "setStrainRate nvar x s = Some s1" and rest: "continuation_steps cs s1 = Some s'"
    by (auto split: bind_splits)
  from setStrainRate_members[OF one] Cons.IH[OF rest] show ?case by simp
qed

lemma setStrainRate_amplify:
  assumes cf: "counterflow s"
    and nvar: "1 \<le> nvar" "nvar \<le> int (length x)"
    and gate: "\<bar>x ! nat (nvar - 1) - m_chi s\<bar> > m_amplify_threshold s"
    and chi: "m_chi s \<noteq> 0"
  shows "\<exists>xs. setStrainRate nvar x s =
           Some (s\<lparr>m_x := xs,
                   m_dom := (m_dom s)[0 := setMdot (m_rhoin_f s * (m_uin_f s * (x ! nat (nvar - 1) / m_chi s))) (m_dom s ! 0),
                                      2 := setMdot (m_rhoin_o s * (m_uin_o s * (x ! nat (nvar - 1) / m_chi s))) (m_dom s ! 2)],
                   m_chi := x ! nat (nvar - 1)\<rparr>) \<and>
           length xs = length (m_x s) \<and>
           (\<forall>p < length (m_x s). xs ! p =
              (if uv_slot (m_iloc (m_dom s ! 1)) (m_nv (m_dom s ! 1)) (m_points (m_dom s ! 1)) p
               then m_x s ! p * (x ! nat (nvar - 1) / m_chi s) else m_x s ! p))"
proof -
  let ?r = "x ! nat (nvar - 1) / m_chi s"
  from cf have dm: "1 < length (m_dom s)" and nv: "2 \<le> m_nv (m_dom s ! 1)"
    and len: "m_iloc (m_dom s ! 1) + m_nv (m_dom s ! 1) * m_points (m_dom s ! 1) \<le> length (m_x s)"
    and three: "\<not> length (m_dom s) < 3"
    by (simp_all add: counterflow_def)
  from amplify_upt[OF dm nv len, of ?r] obtain xs where
    run: "amplify ?r [0..<m_points (m_dom s ! 1)] s = Some (s\<lparr>m_x := xs\<rparr>)"
    and rest: "length xs = length (m_x s)"
      "\<forall>p < length (m_x s). xs ! p =
              (if uv_slot (m_iloc (m_dom s ! 1)) (m_nv (m_dom s ! 1)) (m_points (m_dom s ! 1)) p
               then m_x s ! p * ?r else m_x s ! p)"
    by blast
  have "setStrainRate nvar x s =
           Some (s\<lparr>m_x := xs,
                   m_dom := (m_dom s)[0 := setMdot (m_rhoin_f s * (m_uin_f s * ?r)) (m_dom s ! 0),
                                      2 := setMdot (m_rhoin_o s * (m_uin_o s * ?r)) (m_dom s ! 2)],
                   m_chi := x ! nat (nvar - 1)\<rparr>)"
    using nvar gate chi three run
    by (simp add: setStrainRate_def fdiv_def abs_minus_commute Let_def)
  with rest show ?thesis by blast
qed

text \<open>Three calls on the small state, evaluated.\<close>

lemma counterflow_sim0: "counterflow sim0"
  by (simp add: counterflow_def sim0_def)

lemma upt_2: "[0..<2] = [0, 1]"
  by (simp add: upt_rec)

lemma run_55: "setStrainRate 11 (x_aug 55) sim0 = Some (sim0\<lparr>m_chi := 55\<rparr>)"
  by (simp add: setStrainRate_def x_aug_def sim0_def)

lemma run_100: "setStrainRate 11 (x_aug 100) sim0 = Some sim100"
  by (simp add: setStrainRate_def x_aug_def sim0_def sim100_def fdiv_def upt_2 value_at_def
      setValue_def rd_def wr_def index_def c_offset_U_def c_offset_V_def setMdot_def)

lemma run_150: "setStrainRate 11 (x_aug 150) sim100 = Some sim150"
  by (simp add: setStrainRate_def x_aug_def sim0_def sim100_def sim150_def fdiv_def upt_2
      value_at_def setValue_def rd_def wr_def index_def c_offset_U_def c_offset_V_def setMdot_def)

text \<open>
  Claim C1 says that every call of \<open>setStrainRate\<close> with \<open>|x[N] - \<chi>| > \<tau>\<close> scales the U and
  V values of the flow domain and the two inlet mass fluxes by \<open>r = x[N] / \<chi>\<close>, so that
  after every amplifying call, also in a sequence of them, the ratio of the new to the old
  mass flux equals the ratio of the new to the old strain rate. The code does not keep the
  fluxes in step: it scales U and V in place, but computes the new flux from a local copy
  of the stored inlet velocity, scaled by the ratio of this call only and never written
  back. From the small state, the steps 50 \<open>\<rightarrow>\<close> 100 \<open>\<rightarrow>\<close> 150 both pass the threshold 10; U at
  point 0 goes 2 \<open>\<rightarrow>\<close> 4 \<open>\<rightarrow>\<close> 6 with the strain rate, while the fuel flux goes
  3 \<open>\<rightarrow>\<close> 6 \<open>\<rightarrow>\<close> 9/2 and the oxidizer flux 8 \<open>\<rightarrow>\<close> 16 \<open>\<rightarrow>\<close> 12: the flux ratio of the second
  step is 3/4, the strain-rate ratio 3/2.
\<close>

theorem setStrainRate_sequence_flux:
  "setStrainRate 11 (x_aug 100) sim0 = Some sim100 \<and>
   setStrainRate 11 (x_aug 150) sim100 = Some sim150 \<and>
   \<bar>x_aug 100 ! nat (11 - 1) - m_chi sim0\<bar> > m_amplify_threshold sim0 \<and>
   \<bar>x_aug 150 ! nat (11 - 1) - m_chi sim100\<bar> > m_amplify_threshold sim100 \<and>
   m_chi sim0 = 50 \<and> m_chi sim100 = 100 \<and> m_chi sim150 = 150 \<and>
   value_at sim0 1 c_offset_U 0 = Some 2 \<and> value_at sim100 1 c_offset_U 0 = Some 4 \<and>
   value_at sim150 1 c_offset_U 0 = Some 6 \<and>
   inlet_f_mdot sim0 = 3 \<and> inlet_f_mdot sim100 = 6 \<and> inlet_f_mdot sim150 = 9 / 2 \<and>
   inlet_o_mdot sim0 = 8 \<and> inlet_o_mdot sim100 = 16 \<and> inlet_o_mdot sim150 = 12 \<and>
   inlet_f_mdot sim150 / inlet_f_mdot sim100 = 3 / 4 \<and>
   inlet_o_mdot sim150 / inlet_o_mdot sim100 = 3 / 4 \<and>
   m_chi sim150 / m_chi sim100 = 3 / 2"
  by (simp add: run_100 run_150)
    (simp add: inlet_f_mdot_def inlet_o_mdot_def value_at_def rd_def index_def c_offset_U_def
      x_aug_def sim0_def sim100_def sim150_def)

text \<open>
  Claim C3, as amended. A call of \<open>setStrainRate\<close> with \<open>|x[N] - \<chi>| \<le> \<tau>\<close> leaves the solution
  vector (so every U and V value), the domains (so both inlet mass fluxes) and every other
  member unchanged, except that the stored strain rate becomes \<open>x[N]\<close>.
\<close>

theorem setStrainRate_below_threshold:
  assumes "1 \<le> nvar" "nvar \<le> int (length x)"
    and "\<bar>x ! nat (nvar - 1) - m_chi s\<bar> \<le> m_amplify_threshold s"
  shows "\<exists>s'. setStrainRate nvar x s = Some s' \<and> s' = s\<lparr>m_chi := x ! nat (nvar - 1)\<rparr> \<and>
           m_x s' = m_x s \<and> m_dom s' = m_dom s \<and>
           inlet_f_mdot s' = inlet_f_mdot s \<and> inlet_o_mdot s' = inlet_o_mdot s \<and>
           m_chi s' = x ! nat (nvar - 1)"
  using setStrainRate_no_amplify[OF assms] by (simp add: inlet_f_mdot_def inlet_o_mdot_def)

theorem setStrainRate_below_threshold_witness:
  "(1::int) \<le> 11 \<and> 11 \<le> int (length (x_aug 55)) \<and>
   \<bar>x_aug 55 ! nat (11 - 1) - m_chi sim0\<bar> \<le> m_amplify_threshold sim0 \<and>
   setStrainRate 11 (x_aug 55) sim0 = Some (sim0\<lparr>m_chi := 55\<rparr>) \<and>
   map_option m_x (setStrainRate 11 (x_aug 55) sim0) = Some (m_x sim0) \<and>
   map_option inlet_f_mdot (setStrainRate 11 (x_aug 55) sim0) = Some (inlet_f_mdot sim0) \<and>
   map_option inlet_o_mdot (setStrainRate 11 (x_aug 55) sim0) = Some (inlet_o_mdot sim0)"
proof -
  have hyps: "(1::int) \<le> 11" "11 \<le> int (length (x_aug 55))"
    "\<bar>x_aug 55 ! nat (11 - 1) - m_chi sim0\<bar> \<le> m_amplify_threshold sim0"
    by (simp_all add: x_aug_def sim0_def)
  have "x_aug 55 ! nat (11 - 1) = 55" by (simp add: x_aug_def sim0_def)
  with setStrainRate_below_threshold[OF hyps] hyps show ?thesis by auto
qed

text \<open>
  Claim C3 as stated fails: the assignment to the stored strain rate is outside the
  conditional. At the small state (strain rate 50, threshold 10) the call with
  \<open>x[N] = 55\<close> is below the threshold and leaves 55 as the stored strain rate.
\<close>

theorem setStrainRate_below_threshold_counterexample:
  "\<bar>x_aug 55 ! nat (11 - 1) - StrainRate sim0\<bar> \<le> m_amplify_threshold sim0 \<and>
   StrainRate sim0 = 50 \<and>
   map_option StrainRate (setStrainRate 11 (x_aug 55) sim0) = Some 55 \<and>
   setStrainRate 11 (x_aug 55) sim0 \<noteq> Some sim0"
proof -
  have "m_chi (sim0\<lparr>m_chi := 55\<rparr>) \<noteq> m_chi sim0" by (simp add: sim0_def)
  then have "sim0\<lparr>m_chi := 55\<rparr> \<noteq> sim0" by metis
  then show ?thesis
    by (simp add: run_55 StrainRate_def) (simp add: x_aug_def sim0_def)
qed

text \<open>
  Claim C10. \<open>setStrainRate\<close> never assigns the stored inlet velocities and densities: after
  any sequence of calls they are the values that the setters installed, and an amplifying
  call installs the inlet mass fluxes computed from those original values and the ratio
  \<open>x[N] / \<chi>\<close> of that call alone.
\<close>

theorem setStrainRate_keeps_inlet_members:
  assumes steps: "continuation_steps cs
        (setOxidizerDensity ro (setFuelDensity rf (setOxidizerVelocity uo (setFuelVelocity uf s0)))) = Some s"
    and call: "setStrainRate nvar x s = Some s'"
  shows "m_uin_f s' = uf \<and> m_uin_o s' = uo \<and> m_rhoin_f s' = rf \<and> m_rhoin_o s' = ro \<and>
         (\<bar>x ! nat (nvar - 1) - m_chi s\<bar> > m_amplify_threshold s \<longrightarrow>
            inlet_f_mdot s' = rf * (uf * (x ! nat (nvar - 1) / m_chi s)) \<and>
            inlet_o_mdot s' = ro * (uo * (x ! nat (nvar - 1) / m_chi s)))"
proof -
  from continuation_steps_members[OF steps]
  have s: "m_uin_f s = uf" "m_uin_o s = uo" "m_rhoin_f s = rf" "m_rhoin_o s = ro"
    by (simp_all add: setFuelVelocity_def setOxidizerVelocity_def setFuelDensity_def
        setOxidizerDensity_def)
  from setStrainRate_members[OF call] s
  have members: "m_uin_f s' = uf" "m_uin_o s' = uo" "m_rhoin_f s' = rf" "m_rhoin_o s' = ro"
    by simp_all
  have "inlet_f_mdot s' = rf * (uf * (x ! nat (nvar - 1) / m_chi s)) \<and>
        inlet_o_mdot s' = ro * (uo * (x ! nat (nvar - 1) / m_chi s))"
    if gate: "\<bar>x ! nat (nvar - 1) - m_chi s\<bar> > m_amplify_threshold s"
  proof -
    from setStrainRate_amplify_result[OF call gate] obtain xs where
      three: "3 \<le> length (m_dom s)"
      and s': "s' = s\<lparr>m_x := xs,
                     m_dom := (m_dom s)[0 := setMdot (m_rhoin_f s * (m_uin_f s * (x ! nat (nvar - 1) / m_chi s))) (m_dom s ! 0),
                                        2 := setMdot (m_rhoin_o s * (m_uin_o s * (x ! nat (nvar - 1) / m_chi s))) (m_dom s ! 2)],
                     m_chi := x ! nat (nvar - 1)\<rparr>"
      by blast
    from three have ne: "m_dom s \<noteq> []" by auto
    from s' ne three s show ?thesis
      by (simp add: inlet_f_mdot_def inlet_o_mdot_def setMdot_def)
  qed
  with members show ?thesis by blast
qed

text \<open>The theorem at the small state: after the step to 100, the step to 150 installs the
  fuel flux \<open>1 \<cdot> (3 \<cdot> (150 / 100))\<close>, from the velocity 3 that was set at the start.\<close>

theorem setStrainRate_keeps_inlet_members_witness:
  "continuation_steps [(11, x_aug 100)]
      (setOxidizerDensity 2 (setFuelDensity 1 (setOxidizerVelocity 4 (setFuelVelocity 3 sim0))))
     = Some sim100 \<and>
   setStrainRate 11 (x_aug 150) sim100 = Some sim150 \<and>
   \<bar>x_aug 150 ! nat (11 - 1) - m_chi sim100\<bar> > m_amplify_threshold sim100 \<and>
   m_uin_f sim150 = 3 \<and> m_uin_o sim150 = 4 \<and> m_rhoin_f sim150 = 1 \<and> m_rhoin_o sim150 = 2 \<and>
   inlet_f_mdot sim150 = 1 * (3 * (150 / 100)) \<and>
   inlet_o_mdot sim150 = 2 * (4 * (150 / 100))"
proof -
  let ?s0 = "setOxidizerDensity 2 (setFuelDensity 1 (setOxidizerVelocity 4 (setFuelVelocity 3 sim0)))"
  have same: "?s0 = sim0"
    by (simp add: setFuelVelocity_def setOxidizerVelocity_def setFuelDensity_def
        setOxidizerDensity_def sim0_def)
  have steps: "continuation_steps [(11, x_aug 100)] ?s0 = Some sim100"
    by (simp add: same run_100)
  have gate: "\<bar>x_aug 150 ! nat (11 - 1) - m_chi sim100\<bar> > m_amplify_threshold sim100"
    by (simp add: x_aug_def sim0_def sim100_def)
  have r: "x_aug 150 ! nat (11 - 1) / m_chi sim100 = 150 / 100"
    by (simp add: x_aug_def sim0_def sim100_def)
  from setStrainRate_keeps_inlet_members[OF steps run_150] gate r
  have "m_uin_f sim150 = 3" "m_uin_o sim150 = 4" "m_rhoin_f sim150 = 1" "m_rhoin_o sim150 = 2"
    "inlet_f_mdot sim150 = 1 * (3 * (150 / 100))"
    "inlet_o_mdot sim150 = 2 * (4 * (150 / 100))"
    by simp_all
  with steps run_150 gate show ?thesis by simp
qed

section \<open>Properties of bound_residue\<close>

lemma project_loop_append:
  "project_loop x lbs ubs (is @ js) acc = project_loop x lbs ubs is acc \<bind> project_loop x lbs ubs js"
  by (induction x lbs ubs "is" acc rule: project_loop.induct) (auto split: bind_splits)

lemma project_loop_step:
  assumes "i < length x" "i < length lbs" "i < length ubs" "i < length xB"
  shows "project_loop x lbs ubs [i] (xB, e) =
           Some (xB[i := proj1 (lbs ! i) (ubs ! i) (x ! i)], e + exc1 (lbs ! i) (ubs ! i) (x ! i))"
  using assms by (simp add: rd_def wr_def proj1_def exc1_def)

lemma project_loop_upt:
  assumes "n \<le> length x" "n \<le> length lbs" "n \<le> length ubs" "k \<le> n"
  shows "project_loop x lbs ubs [0..<k] (replicate n 0, 0) =
           Some (map (\<lambda>i. proj1 (lbs ! i) (ubs ! i) (x ! i)) [0..<k] @ replicate (n - k) 0,
                 (\<Sum>i<k. exc1 (lbs ! i) (ubs ! i) (x ! i)))"
  using assms(4)
proof (induction k)
  case 0
  then show ?case by simp
next
  case (Suc k)
  then have k: "k < n" by simp
  let ?xs = "map (\<lambda>i. proj1 (lbs ! i) (ubs ! i) (x ! i)) [0..<k]"
  have upd: "(?xs @ replicate (n - k) 0)[k := v] = ?xs @ [v] @ replicate (n - Suc k) 0" for v
  proof -
    from k have "replicate (n - k) (0::real) = 0 # replicate (n - Suc k) 0"
      by (metis Suc_diff_Suc replicate_Suc)
    then show ?thesis by (simp add: list_update_append)
  qed
  from Suc k have "project_loop x lbs ubs [0..<Suc k] (replicate n 0, 0) =
      project_loop x lbs ubs [k] (?xs @ replicate (n - k) 0, (\<Sum>i<k. exc1 (lbs ! i) (ubs ! i) (x ! i)))"
    by (simp add: project_loop_append)
  also have "\<dots> = Some ((?xs @ replicate (n - k) 0)[k := proj1 (lbs ! k) (ubs ! k) (x ! k)],
        (\<Sum>i<k. exc1 (lbs ! i) (ubs ! i) (x ! i)) + exc1 (lbs ! k) (ubs ! k) (x ! k))"
    using assms(1-3) k by (intro project_loop_step) simp_all
  finally show ?case by (simp add: upd)
qed

lemma perturb_loop_append:
  "perturb_loop m e (is @ js) f = perturb_loop m e is f \<bind> perturb_loop m e js"
  by (induction "is" arbitrary: f) (auto split: bind_splits simp: Let_def)

lemma perturb_loop_upt:
  assumes "k \<le> length f"
  shows "perturb_loop m e [0..<k] f = Some (map (penalty m e) (take k f) @ drop k f)"
  using assms
proof (induction k)
  case 0
  then show ?case by simp
next
  case (Suc k)
  then have k: "k < length f" by simp
  have d: "drop k f = f ! k # drop (Suc k) f" using k by (simp add: Cons_nth_drop_Suc)
  have t: "take (Suc k) f = take k f @ [f ! k]" using k by (simp add: take_Suc_conv_app_nth)
  let ?g = "map (penalty m e) (take k f) @ drop k f"
  have lg: "length (map (penalty m e) (take k f)) = k" using k by simp
  have gk: "?g ! k = f ! k" using k lg by (simp add: nth_append)
  have "perturb_loop m e [0..<Suc k] f = perturb_loop m e [k] ?g"
    using Suc k by (simp add: perturb_loop_append)
  also have "\<dots> = Some (?g[k := penalty m e (f ! k)])"
    using k gk by (simp add: rd_def wr_def penalty_def Let_def)
  also have "?g[k := penalty m e (f ! k)] = map (penalty m e) (take (Suc k) f) @ drop (Suc k) f"
    using lg by (simp add: d t list_update_append)
  finally show ?case .
qed

lemma bound_residue_run:
  assumes nvar: "0 \<le> nvar"
    and lx: "nat nvar \<le> length x" and ll: "nat nvar \<le> length (lb s)"
    and lu: "nat nvar \<le> length (ub s)" and lm: "length (m_x s) \<le> nat nvar"
    and lr: "nat nvar \<le> length (ev (s\<lparr>m_x := take (length (m_x s))
                (map (\<lambda>i. proj1 (lb s ! i) (ub s ! i) (x ! i)) [0..<nat nvar])\<rparr>) 0 f)"
  shows "bound_residue ev nvar x f s =
     Some (map (penalty (1 / 1000) (\<Sum>i<nat nvar. exc1 (lb s ! i) (ub s ! i) (x ! i)))
             (take (nat nvar) (ev (s\<lparr>m_x := take (length (m_x s))
                (map (\<lambda>i. proj1 (lb s ! i) (ub s ! i) (x ! i)) [0..<nat nvar])\<rparr>) 0 f))
           @ drop (nat nvar) (ev (s\<lparr>m_x := take (length (m_x s))
                (map (\<lambda>i. proj1 (lb s ! i) (ub s ! i) (x ! i)) [0..<nat nvar])\<rparr>) 0 f),
           s\<lparr>m_x := take (length (m_x s))
                (map (\<lambda>i. proj1 (lb s ! i) (ub s ! i) (x ! i)) [0..<nat nvar])\<rparr>)"
proof -
  let ?n = "nat nvar"
  let ?xB = "map (\<lambda>i. proj1 (lb s ! i) (ub s ! i) (x ! i)) [0..<?n]"
  have p: "project_loop x (lb s) (ub s) [0..<?n] (replicate ?n 0, 0) =
             Some (?xB, \<Sum>i<?n. exc1 (lb s ! i) (ub s ! i) (x ! i))"
    using project_loop_upt[OF lx ll lu, of ?n] by simp
  have q: "setSolution ?xB s = Some (s\<lparr>m_x := take (length (m_x s)) ?xB\<rparr>)"
    using lm by (simp add: setSolution_def)
  show ?thesis
    using nvar p q perturb_loop_upt[OF lr]
    by (simp add: bound_residue_def getResidual_def)
qed

lemma proj1_clamp: "l \<le> u \<Longrightarrow> proj1 l u xi = max l (min u xi)"
  by (simp add: proj1_def max_def min_def)

lemma exc1_max: "l \<le> u \<Longrightarrow> exc1 l u xi = max (l - xi) 0 + max (xi - u) 0"
  by (simp add: exc1_def max_def)

lemma exc1_inside: "l \<le> xi \<Longrightarrow> xi \<le> u \<Longrightarrow> exc1 l u xi = 0"
  by (simp add: exc1_def)

lemma penalty_zero: "penalty m 0 = (\<lambda>fi. fi)"
  by (rule ext) (simp add: penalty_def)


lemma upt_11: "[0..<11] = [0, 1, 2, 3, 4, 5, 6, 7, 8, 9, 10]"
  by (simp add: upt_rec)

lemma replicate_11: "replicate 11 (0::real) = [0, 0, 0, 0, 0, 0, 0, 0, 0, 0, 0]"
  by (simp add: eval_nat_numeral)

lemma run_bound: "bound_residue eval_demo 11 x_out f_in sim0 = Some (f_out, sim_out)"
  by (simp add: bound_residue_def upt_11 replicate_11 x_out_def f_in_def sim0_def sim_out_def
      f_out_def rd_def wr_def setSolution_def getResidual_def eval_demo_def)

lemma residual_out: "getResidual eval_demo 0 f_in sim_out = r_out"
  by (simp add: getResidual_def eval_demo_def sim_out_def sim0_def f_in_def r_out_def)

lemma eval_demo_length: "length (eval_demo s rdt r) = length r"
  by (simp add: eval_demo_def)

lemma excess_out:
  "(\<Sum>i<nat 11. max (lb sim0 ! i - x_out ! i) 0) + (\<Sum>i<nat 11. max (x_out ! i - ub sim0 ! i) 0) = 4"
  by (simp add: eval_nat_numeral sim0_def x_out_def)

text \<open>
  Claim C2, as amended. For an input vector \<open>x\<close> of length \<open>nvar\<close>, bounds with
  \<open>lb\<^sub>i \<le> ub\<^sub>i\<close>, and a solution vector of at most \<open>nvar\<close> entries, \<open>bound_residue\<close> stores the
  projection of \<open>x\<close> onto the bounds as the solution, evaluates the steady residual
  (\<open>rdt = 0\<close>) there, and replaces each of the first \<open>nvar\<close> components \<open>f\<^sub>i\<close> of the residual
  by \<open>f\<^sub>i + (f\<^sub>i + p\<^sub>i) \<cdot> excess\<close>, where \<open>excess = \<Sum> max(lb\<^sub>i - x\<^sub>i, 0) + \<Sum> max(x\<^sub>i - ub\<^sub>i, 0)\<close>
  and \<open>p\<^sub>i\<close> is \<open>10\<^sup>-\<^sup>3\<close> when \<open>f\<^sub>i > 0\<close> and \<open>-10\<^sup>-\<^sup>3\<close> otherwise, also for \<open>f\<^sub>i = 0\<close>. When \<open>x\<close>
  lies inside the bounds the output is the residual itself.
\<close>

theorem bound_residue_penalty:
  assumes nvar: "0 \<le> nvar"
    and lx: "nat nvar \<le> length x" and ll: "nat nvar \<le> length (lb s)"
    and lu: "nat nvar \<le> length (ub s)" and lm: "length (m_x s) \<le> nat nvar"
    and lf: "nat nvar \<le> length f"
    and ev_len: "\<forall>s rdt r. length (ev s rdt r) = length r"
    and ord: "\<forall>i < nat nvar. lb s ! i \<le> ub s ! i"
  shows "\<exists>f' s'. bound_residue ev nvar x f s = Some (f', s') \<and>
           m_x s' = take (length (m_x s))
                      (map (\<lambda>i. max (lb s ! i) (min (ub s ! i) (x ! i))) [0..<nat nvar]) \<and>
           length f' = length f \<and>
           (\<forall>i < nat nvar. f' ! i =
              getResidual ev 0 f s' ! i +
              (getResidual ev 0 f s' ! i +
                 (if getResidual ev 0 f s' ! i > 0 then 1 / 1000 else - (1 / 1000))) *
              ((\<Sum>i<nat nvar. max (lb s ! i - x ! i) 0) + (\<Sum>i<nat nvar. max (x ! i - ub s ! i) 0))) \<and>
           (\<forall>i. nat nvar \<le> i \<and> i < length f \<longrightarrow> f' ! i = getResidual ev 0 f s' ! i) \<and>
           ((\<forall>i < nat nvar. lb s ! i \<le> x ! i \<and> x ! i \<le> ub s ! i) \<longrightarrow> f' = getResidual ev 0 f s')"
proof -
  let ?n = "nat nvar"
  let ?xB = "map (\<lambda>i. proj1 (lb s ! i) (ub s ! i) (x ! i)) [0..<?n]"
  let ?s' = "s\<lparr>m_x := take (length (m_x s)) ?xB\<rparr>"
  let ?r = "ev ?s' 0 f"
  let ?E = "\<Sum>i<?n. exc1 (lb s ! i) (ub s ! i) (x ! i)"
  let ?f' = "map (penalty (1 / 1000) ?E) (take ?n ?r) @ drop ?n ?r"
  from ev_len lf have lr: "?n \<le> length ?r" and lr': "length ?r = length f" by simp_all
  from bound_residue_run[where ev = ev and f = f, OF nvar lx ll lu lm lr]
  have run: "bound_residue ev nvar x f s = Some (?f', ?s')" .
  have xB: "?xB = map (\<lambda>i. max (lb s ! i) (min (ub s ! i) (x ! i))) [0..<?n]"
    using ord by (simp add: proj1_clamp)
  have E: "?E = (\<Sum>i<?n. max (lb s ! i - x ! i) 0) + (\<Sum>i<?n. max (x ! i - ub s ! i) 0)"
    using ord by (simp add: exc1_max sum.distrib)
  have len: "length ?f' = length f" using lr lr' by simp
  have low: "\<forall>i < ?n. ?f' ! i = penalty (1 / 1000) ?E (?r ! i)"
    using lr by (simp add: nth_append)
  have high: "\<forall>i. ?n \<le> i \<and> i < length f \<longrightarrow> ?f' ! i = ?r ! i"
    using lr lr' by (auto simp: nth_append min_def)
  have inside: "?f' = ?r" if "\<forall>i < ?n. lb s ! i \<le> x ! i \<and> x ! i \<le> ub s ! i"
  proof -
    from that have "?E = 0" by (simp add: exc1_inside)
    then show ?thesis by (simp add: penalty_zero)
  qed
  show ?thesis
    apply (rule exI[of _ ?f'], rule exI[of _ ?s'])
    using run len low high inside
    by (simp add: getResidual_def penalty_def flip: xB E)
qed

text \<open>The theorem at \<open>x_out\<close>: the excess is 4 and the first residual component 9.\<close>

theorem bound_residue_penalty_witness:
  "(0::int) \<le> 11 \<and> nat 11 \<le> length x_out \<and> nat 11 \<le> length (lb sim0) \<and>
   nat 11 \<le> length (ub sim0) \<and> length (m_x sim0) \<le> nat 11 \<and> nat 11 \<le> length f_in \<and>
   bound_residue eval_demo 11 x_out f_in sim0 = Some (f_out, sim_out) \<and>
   m_x sim_out = [10, 4, 300, -1, 1, 0, 6, 310, -1, 1] \<and>
   getResidual eval_demo 0 f_in sim_out ! 0 = 9 \<and>
   f_out ! 0 = 9 + (9 + 1 / 1000) * 4"
proof -
  have hyps: "(0::int) \<le> 11" "nat 11 \<le> length x_out" "nat 11 \<le> length (lb sim0)"
    "nat 11 \<le> length (ub sim0)" "length (m_x sim0) \<le> nat 11" "nat 11 \<le> length f_in"
    by (simp_all add: x_out_def sim0_def f_in_def)
  have ev: "\<forall>s rdt r. length (eval_demo s rdt r) = length r"
    by (simp add: eval_demo_length)
  have ord: "\<forall>i < nat 11. lb sim0 ! i \<le> ub sim0 ! i"
    by (simp add: sim0_def eval_nat_numeral less_Suc_eq)
  from bound_residue_penalty[OF hyps ev ord] obtain f' s' where
    run: "bound_residue eval_demo 11 x_out f_in sim0 = Some (f', s')"
    and vals: "\<forall>i < nat 11. f' ! i =
              getResidual eval_demo 0 f_in s' ! i +
              (getResidual eval_demo 0 f_in s' ! i +
                 (if getResidual eval_demo 0 f_in s' ! i > 0 then 1 / 1000 else - (1 / 1000))) *
              ((\<Sum>i<nat 11. max (lb sim0 ! i - x_out ! i) 0) +
               (\<Sum>i<nat 11. max (x_out ! i - ub sim0 ! i) 0))"
    by blast
  from run have eq: "f' = f_out" "s' = sim_out" by (simp_all add: run_bound)
  have r0: "getResidual eval_demo 0 f_in sim_out ! 0 = 9"
    by (simp add: residual_out r_out_def)
  from vals have "f' ! 0 =
              getResidual eval_demo 0 f_in s' ! 0 +
              (getResidual eval_demo 0 f_in s' ! 0 +
                 (if getResidual eval_demo 0 f_in s' ! 0 > 0 then 1 / 1000 else - (1 / 1000))) *
              ((\<Sum>i<nat 11. max (lb sim0 ! i - x_out ! i) 0) +
               (\<Sum>i<nat 11. max (x_out ! i - ub sim0 ! i) 0))"
    by simp
  then have "f_out ! 0 = 9 + (9 + 1 / 1000) * 4"
    unfolding eq excess_out r0 by simp
  moreover have "m_x sim_out = [10, 4, 300, -1, 1, 0, 6, 310, -1, 1]"
    by (simp add: sim_out_def)
  ultimately show ?thesis using hyps r0 by (simp add: run_bound)
qed

text \<open>
  Claim C2 as stated, with the sign function, fails where a residual component is zero and
  \<open>x\<close> is outside the bounds: at \<open>x_out\<close> the excess is 4 and component 4 of the residual is
  0; the output there is \<open>-4/1000\<close>, while \<open>f\<^sub>i + (f\<^sub>i + sgn f\<^sub>i \<cdot> 10\<^sup>-\<^sup>3) \<cdot> excess\<close> is 0.
\<close>

theorem bound_residue_sign_counterexample:
  "bound_residue eval_demo 11 x_out f_in sim0 = Some (f_out, sim_out) \<and>
   getResidual eval_demo 0 f_in sim_out = r_out \<and>
   (\<Sum>i<nat 11. max (lb sim0 ! i - x_out ! i) 0) + (\<Sum>i<nat 11. max (x_out ! i - ub sim0 ! i) 0) = 4 \<and>
   r_out ! 4 = 0 \<and> f_out ! 4 = - (4 / 1000) \<and>
   f_out ! 4 \<noteq> r_out ! 4 + (r_out ! 4 + sgn (r_out ! 4) * (1 / 1000)) * 4"
  using run_bound residual_out excess_out by (simp add: r_out_def f_out_def)





section \<open>Properties of the upwind derivatives\<close>

lemma interior_slot:
  assumes "c < nv" "j < np"
  shows "nv * j + c < nv * (np::nat)"
proof -
  from assms(2) have "nv * j + nv \<le> nv * np" by (rule mult_step)
  with assms(1) show ?thesis by simp
qed

lemma grid_okD:
  assumes "grid_ok s" "1 \<le> jloc" "jloc < m_points s"
  shows "jloc - 1 < length (m_dz s)"
    and "m_dz s ! (jloc - 1) = m_z s ! jloc - m_z s ! (jloc - 1)"
    and "m_z s ! (jloc - 1) < m_z s ! jloc"
proof -
  from assms(2,3) have j: "jloc - 1 + 1 = jloc" "jloc - 1 + 1 < m_points s" by simp_all
  from assms(1) have len: "length (m_dz s) + 1 = m_points s"
    and all: "\<forall>j. j + 1 < m_points s \<longrightarrow>
        m_dz s ! j = m_z s ! (j + 1) - m_z s ! j \<and> m_z s ! j < m_z s ! (j + 1)"
    by (simp_all add: grid_ok_def)
  from len assms(2,3) show "jloc - 1 < length (m_dz s)" by linarith
  from all[rule_format, OF j(2)] j(1)
  show "m_dz s ! (jloc - 1) = m_z s ! jloc - m_z s ! (jloc - 1)"
    and "m_z s ! (jloc - 1) < m_z s ! jloc"
    by simp_all
qed

lemma upwind_difference:
  assumes grid: "grid_ok s"
    and len: "length x = m_nv s * m_points s"
    and c: "c < m_nv s"
    and j: "1 \<le> jloc" "jloc < m_points s"
  shows "do {
           a \<leftarrow> rd x (index s c jloc);
           b \<leftarrow> rd x (index s c (jloc - 1));
           d \<leftarrow> rd (m_dz s) (jloc - 1);
           fdiv (a - b) d
         } =
         Some ((x ! index s c jloc - x ! index s c (jloc - 1)) /
               (m_z s ! jloc - m_z s ! (jloc - 1)))"
proof -
  from j have j': "jloc - 1 < m_points s" by simp
  from interior_slot[OF c j(2)] interior_slot[OF c j'] len
  have r: "index s c jloc < length x" "index s c (jloc - 1) < length x"
    by (simp_all add: index_def)
  from r grid_okD[OF grid j] show ?thesis by (simp add: rd_def fdiv_def)
qed

text \<open>
  Claim C8. On a grid with \<open>m_dz\<close> holding the spacings of the strictly increasing
  coordinates, for every interior point \<open>j\<close> (\<open>1 \<le> j\<close>, \<open>j + 1 < m_points\<close>) and every species
  \<open>k\<close> of the domain, \<open>dVdz\<close>, \<open>dYdz\<close> and \<open>dTdz\<close> return
  \<open>(\<phi>(jloc) - \<phi>(jloc - 1)) / (z(jloc) - z(jloc - 1))\<close> for \<open>\<phi> = V, Y\<^sub>k, T\<close>, where \<open>jloc\<close> is \<open>j\<close>
  when \<open>u(x, j) > 0\<close> and \<open>j + 1\<close> otherwise.
\<close>

theorem upwind_derivatives:
  assumes grid: "grid_ok s"
    and len: "length x = m_nv s * m_points s"
    and comps: "c_offset_Y + k < m_nv s"
    and j: "1 \<le> j" "j + 1 < m_points s"
  shows "\<exists>uj jloc. u_of s x j = Some uj \<and> jloc = (if uj > 0 then j else j + 1) \<and>
           (\<exists>zb za. z s (jloc - 1) = Some zb \<and> z s jloc = Some za \<and> zb < za \<and>
              (\<exists>a b. V_of s x jloc = Some a \<and> V_of s x (jloc - 1) = Some b \<and>
                     dVdz s x j = Some ((a - b) / (za - zb))) \<and>
              (\<exists>a b. Y_of s x k jloc = Some a \<and> Y_of s x k (jloc - 1) = Some b \<and>
                     dYdz s x k j = Some ((a - b) / (za - zb))) \<and>
              (\<exists>a b. T_of s x jloc = Some a \<and> T_of s x (jloc - 1) = Some b \<and>
                     dTdz s x j = Some ((a - b) / (za - zb))))"
proof -
  from comps have cs: "c_offset_U < m_nv s" "c_offset_V < m_nv s" "c_offset_T < m_nv s"
    by (simp_all add: c_offset_U_def c_offset_V_def c_offset_T_def c_offset_Y_def)
  from j have jp: "j < m_points s" by simp
  from interior_slot[OF cs(1) jp] len have "index s c_offset_U j < length x"
    by (simp add: index_def)
  then have uj: "u_of s x j = Some (x ! index s c_offset_U j)"
    by (simp add: u_of_def rd_def)
  define jloc where "jloc = (if x ! index s c_offset_U j > 0 then j else j + 1)"
  from j have jl: "1 \<le> jloc" "jloc < m_points s" "jloc - 1 < m_points s" "jloc \<noteq> 0"
    by (auto simp: jloc_def)
  from grid jl have zs: "z s (jloc - 1) = Some (m_z s ! (jloc - 1))" "z s jloc = Some (m_z s ! jloc)"
    by (simp_all add: z_def rd_def grid_ok_def)
  note lt = grid_okD(3)[OF grid jl(1,2)]
  have slot: "index s c jloc < length x" "index s c (jloc - 1) < length x" if "c < m_nv s" for c
    using interior_slot[OF that jl(2)] interior_slot[OF that jl(3)] len
    by (simp_all add: index_def)
  have V: "\<exists>a b. V_of s x jloc = Some a \<and> V_of s x (jloc - 1) = Some b \<and>
                     dVdz s x j = Some ((a - b) / (m_z s ! jloc - m_z s ! (jloc - 1)))"
    using slot[OF cs(2)] upwind_difference[OF grid len cs(2) jl(1,2)] uj jl(4)
    by (simp add: dVdz_def V_of_def rd_def flip: jloc_def)
  have Y: "\<exists>a b. Y_of s x k jloc = Some a \<and> Y_of s x k (jloc - 1) = Some b \<and>
                     dYdz s x k j = Some ((a - b) / (m_z s ! jloc - m_z s ! (jloc - 1)))"
    using slot[OF comps] upwind_difference[OF grid len comps jl(1,2)] uj jl(4)
    by (simp add: dYdz_def Y_of_def rd_def flip: jloc_def)
  have T: "\<exists>a b. T_of s x jloc = Some a \<and> T_of s x (jloc - 1) = Some b \<and>
                     dTdz s x j = Some ((a - b) / (m_z s ! jloc - m_z s ! (jloc - 1)))"
    using slot[OF cs(3)] upwind_difference[OF grid len cs(3) jl(1,2)] uj jl(4)
    by (simp add: dTdz_def T_of_def rd_def flip: jloc_def)
  from uj jloc_def zs lt V Y T show ?thesis by blast
qed

lemma grid_ok_flow0: "grid_ok flow0"
  by (simp add: grid_ok_def flow0_def less_Suc_eq eval_nat_numeral)

text \<open>The theorem at point 1 of the small flow, where \<open>u\<close> is negative and \<open>jloc = 2\<close>.\<close>

theorem upwind_derivatives_witness:
  "grid_ok flow0 \<and> length x_flow = m_nv flow0 * m_points flow0 \<and> c_offset_Y + 0 < m_nv flow0 \<and>
   (1::nat) \<le> 1 \<and> 1 + 1 < m_points flow0 \<and>
   u_of flow0 x_flow 1 = Some (- 2) \<and> z flow0 1 = Some 1 \<and> z flow0 2 = Some 3 \<and>
   dVdz flow0 x_flow 1 = Some ((9 - 6) / (3 - 1)) \<and>
   dYdz flow0 x_flow 0 1 = Some ((0 - 1 / 2) / (3 - 1)) \<and>
   dTdz flow0 x_flow 1 = Some ((330 - 310) / (3 - 1))"
proof -
  have hyps: "grid_ok flow0" "length x_flow = m_nv flow0 * m_points flow0"
    "c_offset_Y + 0 < m_nv flow0" "(1::nat) \<le> 1" "1 + 1 < m_points flow0"
    by (simp_all add: grid_ok_flow0) (simp_all add: flow0_def x_flow_def c_offset_Y_def)
  have vals: "u_of flow0 x_flow 1 = Some (- 2)" "z flow0 1 = Some 1" "z flow0 2 = Some 3"
    "V_of flow0 x_flow 2 = Some 9" "V_of flow0 x_flow 1 = Some 6"
    "Y_of flow0 x_flow 0 2 = Some 0" "Y_of flow0 x_flow 0 1 = Some (1 / 2)"
    "T_of flow0 x_flow 2 = Some 330" "T_of flow0 x_flow 1 = Some 310"
    by (simp_all add: u_of_def V_of_def Y_of_def T_of_def z_def rd_def index_def flow0_def
        x_flow_def c_offset_U_def c_offset_V_def c_offset_T_def c_offset_Y_def)
  from upwind_derivatives[OF hyps] vals
  have "dVdz flow0 x_flow 1 = Some ((9 - 6) / (3 - 1))"
    "dYdz flow0 x_flow 0 1 = Some ((0 - 1 / 2) / (3 - 1))"
    "dTdz flow0 x_flow 1 = Some ((330 - 310) / (3 - 1))"
    by (auto simp: numeral_2_eq_2)
  with hyps vals show ?thesis by simp
qed

section \<open>Properties of the liquid phase closures\<close>

lemma sqrt_dbl_min_eq: "sqrt_dbl_min = 1 / 2 ^ 511"
proof -
  have "(2::real) ^ 1022 = (2 ^ 511)\<^sup>2" by (simp add: power_even_eq)
  then have "sqrt ((2::real) ^ 1022) = 2 ^ 511" by (simp only: real_sqrt_abs) simp
  then show ?thesis by (simp add: sqrt_dbl_min_def dbl_min_def real_sqrt_divide)
qed

lemma sqrt_dbl_min_pos: "0 < sqrt_dbl_min"
  by (simp add: sqrt_dbl_min_eq)

lemma sqrt_dbl_min_le: "sqrt_dbl_min \<le> 1 / 2"
proof -
  have "(2::real) ^ 1 \<le> 2 ^ 511" by (rule power_increasing) simp_all
  then show ?thesis by (simp add: sqrt_dbl_min_eq field_simps)
qed

lemma dl_small:
  "ml_of s x j = Some m \<Longrightarrow> m < sqrt_dbl_min \<Longrightarrow> dl s x j = Some 0"
  by (simp add: dl_def)

lemma mdot_small:
  assumes "ml_of s x j = Some m" "m < sqrt_dbl_min"
    and "Yrs s x j = Some y" "Y_of s x (c_offset_fuel s) j = Some yf"
    and "rd (m_rho s) j = Some rho" "Dgf s j = Some D"
    and "0 < 1 + (y - yf) / max (1 - y) sqrt_dbl_min"
  shows "mdot s x j = Some 0"
  using assms by (simp add: mdot_def dl_def flog_def)

lemma dl_large:
  assumes "ml_of s x j = Some m" "\<not> m < sqrt_dbl_min" "rhol s x j = Some r" "0 < r"
  shows "dl s x j = Some ((6 * m / (pi * r)) powr (1 / 3))"
proof -
  from assms(2) sqrt_dbl_min_pos have "0 < m" by linarith
  with assms(4) have "0 < 6 * m / pi / r" by simp
  moreover have "6 * m / pi / r = 6 * m / (pi * r)" by simp
  ultimately show ?thesis using assms by (simp add: dl_def fdiv_def fpow_def)
qed

lemma rhol_constant:
  assumes "\<bar>m_rhol_B s\<bar> < sqrt_dbl_min \<and> \<bar>m_rhol_C s\<bar> < sqrt_dbl_min \<and> \<bar>m_rhol_D s\<bar> < sqrt_dbl_min"
  shows "rhol s x j = Some (m_rhol_A s)"
  using assms by (simp add: rhol_def)

lemma rhol_dippr:
  assumes "\<not> (\<bar>m_rhol_B s\<bar> < sqrt_dbl_min \<and> \<bar>m_rhol_C s\<bar> < sqrt_dbl_min \<and> \<bar>m_rhol_D s\<bar> < sqrt_dbl_min)"
    and "Tl_of s x j = Some tliq" "m_rhol_C s \<noteq> 0" "0 < 1 - tliq / m_rhol_C s" "0 < m_rhol_B s"
  shows "rhol s x j =
           Some (m_rhol_A s / m_rhol_B s powr (1 + (1 - tliq / m_rhol_C s) powr m_rhol_D s))"
proof -
  from assms(1) have "rhol s x j =
      do {
        tliq \<leftarrow> Tl_of s x j;
        t \<leftarrow> fdiv tliq (m_rhol_C s);
        p \<leftarrow> fpow (1 - t) (m_rhol_D s);
        d \<leftarrow> fpow (m_rhol_B s) (1 + p);
        fdiv (m_rhol_A s) d
      }"
    unfolding rhol_def by (simp only: diff_0_right if_False)
  with assms(2-) show ?thesis by (simp add: fdiv_def fpow_def)
qed

text \<open>
  Claim C6, as amended. At a point with droplet mass \<open>m\<^sub>l\<close>: if \<open>m\<^sub>l < \<surd>\<epsilon>\<close> then \<open>dl\<close> returns
  exactly 0, and \<open>mdot\<close> returns exactly 0 provided the surface mass fraction, the fuel
  mass fraction, the density and the diffusion coefficient are defined and the argument
  \<open>1 + B\<^sub>m\<close> of the logarithm is positive. Otherwise, for a positive liquid density \<open>\<rho>\<^sub>l\<close>,
  \<open>dl = (6 m\<^sub>l / (\<pi> \<rho>\<^sub>l))\<^sup>1\<^sup>/\<^sup>3\<close>. The liquid density is the constant \<open>A\<close> when the other three
  coefficients are below \<open>\<surd>\<epsilon>\<close> in absolute value (zero, when only \<open>A\<close> is set), and
  \<open>A / B\<^bsup>1 + (1 - T\<^sub>l/C)\<^sup>D\<^esup>\<close> (DIPPR 105) when one of them is at least \<open>\<surd>\<epsilon>\<close> in absolute
  value, \<open>B > 0\<close> and \<open>T\<^sub>l/C < 1\<close>.
\<close>

theorem droplet_diameter_and_evaporation:
  assumes m: "ml_of s x j = Some m"
  shows "(m < sqrt_dbl_min \<longrightarrow>
            dl s x j = Some 0 \<and>
            (\<forall>y yf rho D.
               Yrs s x j = Some y \<and> Y_of s x (c_offset_fuel s) j = Some yf \<and>
               rd (m_rho s) j = Some rho \<and> Dgf s j = Some D \<and>
               0 < 1 + (y - yf) / max (1 - y) sqrt_dbl_min \<longrightarrow>
               mdot s x j = Some 0)) \<and>
         (\<not> m < sqrt_dbl_min \<longrightarrow>
            (\<forall>r. rhol s x j = Some r \<and> 0 < r \<longrightarrow>
               dl s x j = Some ((6 * m / (pi * r)) powr (1 / 3)))) \<and>
         (\<bar>m_rhol_B s\<bar> < sqrt_dbl_min \<and> \<bar>m_rhol_C s\<bar> < sqrt_dbl_min \<and>
          \<bar>m_rhol_D s\<bar> < sqrt_dbl_min \<longrightarrow>
            rhol s x j = Some (m_rhol_A s)) \<and>
         (\<not> (\<bar>m_rhol_B s\<bar> < sqrt_dbl_min \<and> \<bar>m_rhol_C s\<bar> < sqrt_dbl_min \<and>
             \<bar>m_rhol_D s\<bar> < sqrt_dbl_min) \<longrightarrow>
            (\<forall>tliq. Tl_of s x j = Some tliq \<and> m_rhol_C s \<noteq> 0 \<and> 0 < 1 - tliq / m_rhol_C s \<and>
                  0 < m_rhol_B s \<longrightarrow>
               rhol s x j =
                 Some (m_rhol_A s / m_rhol_B s powr (1 + (1 - tliq / m_rhol_C s) powr m_rhol_D s))))"
  using dl_small[OF m] mdot_small[OF m] dl_large[OF m] rhol_constant[of s x j]
    rhol_dippr[of s x j]
  by blast

lemmas spray_defs = spray0_def spray1_def spray_base_def setLiquidVapPressParam_def
  setLiquidDensityParam_def x_spray_def index_def rd_def
  c_offset_Y_def c_offset_T_def c_offset_Tl_def c_offset_ml_def bar2Pa_def

lemma spray0_reads:
  "ml_of spray0 x_spray 0 = Some 0" "ml_of spray0 x_spray 2 = Some pi"
  "ml_of spray0 x_spray 3 = Some 0"
  "Y_of spray0 x_spray (c_offset_fuel spray0) 0 = Some (1 / 4)"
  "Y_of spray0 x_spray (c_offset_fuel spray0) 2 = Some 0"
  "Y_of spray0 x_spray (c_offset_fuel spray0) 3 = Some 1"
  "T_of spray0 x_spray 2 = Some 500" "Tl_of spray0 x_spray 2 = Some 300"
  "Tl_of spray1 x_spray 2 = Some 300"
  "rd (m_rho spray0) 0 = Some 1" "Dgf spray0 0 = Some 1"
  "rd (m_rho spray0) 2 = Some 1" "Dgf spray0 2 = Some 1"
  "rd (m_rho spray0) 3 = Some 1" "Dgf spray0 3 = Some 1"
  "cpgf spray0 x_spray 2 = Some 1000"
  by (simp_all add: ml_of_def Y_of_def T_of_def Tl_of_def Dgf_def cpgf_def spray_defs)

lemma spray0_Yrs:
  "Yrs spray0 x_spray 0 = Some (1 / 2)" "Yrs spray0 x_spray 2 = Some (1 / 2)"
  "Yrs spray0 x_spray 3 = Some (1 / 2)"
  by (simp_all add: Yrs_def prs_def fdiv_def fpow_def spray_defs)

lemma max_half: "max (1 / 2) sqrt_dbl_min = 1 / 2"
  using sqrt_dbl_min_le by (simp add: max_def)

lemma spray0_rhol: "rhol spray0 x_spray j = Some 6"
  using sqrt_dbl_min_pos by (simp add: rhol_def spray_defs)

lemma pi_not_small: "\<not> pi < sqrt_dbl_min"
  using sqrt_dbl_min_le pi_ge_two by linarith

lemma spray0_dl: "dl spray0 x_spray 0 = Some 0" "dl spray0 x_spray 3 = Some 0"
  "dl spray0 x_spray 2 = Some 1"
  using sqrt_dbl_min_pos pi_not_small
  by (simp_all add: dl_def spray0_reads spray0_rhol fdiv_def fpow_def)

lemma spray0_mdot:
  "mdot spray0 x_spray 0 = Some 0" "mdot spray0 x_spray 3 = None"
  "mdot spray0 x_spray 2 = Some (2 * pi * ln 2)"
  by (simp_all add: mdot_def spray0_Yrs spray0_reads spray0_dl max_half flog_def)

lemma ln2_ge_half: "1 / 2 \<le> ln (2::real)"
proof -
  have "ln (1 / 2 :: real) \<le> 1 / 2 - 1" by (rule ln_le_minus_one) simp
  then show ?thesis by (simp add: ln_div)
qed

lemma spray0_mdot_large: "sqrt_dbl_min < 2 * pi * ln 2"
proof -
  from ln2_ge_half pi_ge_two have "2 * (1 / 2) \<le> pi * ln 2"
    by (intro mult_mono) simp_all
  with sqrt_dbl_min_le show ?thesis by linarith
qed



lemma spray_params:
  "m_rhol_A spray0 = 6" "m_rhol_B spray0 = 0" "m_rhol_C spray0 = 0" "m_rhol_D spray0 = 0"
  "m_rhol_A spray1 = 6" "m_rhol_B spray1 = 1" "m_rhol_C spray1 = 600" "m_rhol_D spray1 = 1"
  by (simp_all add: spray_defs)

lemma one_not_small: "\<not> \<bar>1::real\<bar> < sqrt_dbl_min"
  using sqrt_dbl_min_le by simp

text \<open>The theorem at the points 0 and 2 of \<open>x_spray\<close>, for both liquid densities.\<close>

theorem droplet_diameter_and_evaporation_witness:
  "ml_of spray0 x_spray 0 = Some 0 \<and> 0 < sqrt_dbl_min \<and>
   Yrs spray0 x_spray 0 = Some (1 / 2) \<and>
   Y_of spray0 x_spray (c_offset_fuel spray0) 0 = Some (1 / 4) \<and>
   rd (m_rho spray0) 0 = Some 1 \<and> Dgf spray0 0 = Some 1 \<and>
   0 < 1 + (1 / 2 - 1 / 4) / max (1 - 1 / 2) sqrt_dbl_min \<and>
   dl spray0 x_spray 0 = Some 0 \<and> mdot spray0 x_spray 0 = Some 0 \<and>
   ml_of spray0 x_spray 2 = Some pi \<and> \<not> pi < sqrt_dbl_min \<and>
   \<bar>m_rhol_B spray0\<bar> < sqrt_dbl_min \<and> \<bar>m_rhol_C spray0\<bar> < sqrt_dbl_min \<and>
   \<bar>m_rhol_D spray0\<bar> < sqrt_dbl_min \<and>
   rhol spray0 x_spray 2 = Some (m_rhol_A spray0) \<and> 0 < m_rhol_A spray0 \<and>
   dl spray0 x_spray 2 = Some ((6 * pi / (pi * m_rhol_A spray0)) powr (1 / 3)) \<and>
   ml_of spray1 x_spray 2 = Some pi \<and> \<not> \<bar>m_rhol_B spray1\<bar> < sqrt_dbl_min \<and>
   Tl_of spray1 x_spray 2 = Some 300 \<and> m_rhol_C spray1 \<noteq> 0 \<and>
   0 < 1 - 300 / m_rhol_C spray1 \<and> 0 < m_rhol_B spray1 \<and>
   rhol spray1 x_spray 2 =
     Some (m_rhol_A spray1 / m_rhol_B spray1 powr (1 + (1 - 300 / m_rhol_C spray1) powr m_rhol_D spray1))"
proof -
  note small = droplet_diameter_and_evaporation[OF spray0_reads(1)]
  note large = droplet_diameter_and_evaporation[OF spray0_reads(2)]
  have ml1: "ml_of spray1 x_spray 2 = Some pi"
    by (simp add: ml_of_def spray_defs)
  note dippr = droplet_diameter_and_evaporation[OF ml1]
  have gate: "0 < 1 + (1 / 2 - 1 / 4) / max (1 - 1 / 2) sqrt_dbl_min"
    by (simp add: max_half)
  have a: "dl spray0 x_spray 0 = Some 0" "mdot spray0 x_spray 0 = Some 0"
    using small sqrt_dbl_min_pos spray0_Yrs(1) spray0_reads(4,10,11) gate by blast+
  have unset: "\<bar>m_rhol_B spray0\<bar> < sqrt_dbl_min" "\<bar>m_rhol_C spray0\<bar> < sqrt_dbl_min"
    "\<bar>m_rhol_D spray0\<bar> < sqrt_dbl_min"
    using sqrt_dbl_min_pos by (simp_all add: spray_params)
  have b: "rhol spray0 x_spray 2 = Some (m_rhol_A spray0)"
    using large unset by blast
  have c: "dl spray0 x_spray 2 = Some ((6 * pi / (pi * m_rhol_A spray0)) powr (1 / 3))"
    using large pi_not_small b spray_params(1) by simp
  have pre: "\<not> \<bar>m_rhol_B spray1\<bar> < sqrt_dbl_min" "m_rhol_C spray1 \<noteq> 0"
    "0 < 1 - 300 / m_rhol_C spray1" "0 < m_rhol_B spray1"
    using one_not_small by (simp_all add: spray_params)
  have d: "rhol spray1 x_spray 2 =
     Some (m_rhol_A spray1 / m_rhol_B spray1 powr (1 + (1 - 300 / m_rhol_C spray1) powr m_rhol_D spray1))"
    using dippr pre spray0_reads(9) by blast
  show ?thesis
    using a b c d pre unset ml1 gate sqrt_dbl_min_pos pi_not_small spray0_reads spray0_Yrs
      spray_params
    by simp
qed

text \<open>
  Claim C6 as stated fails for the evaporation rate: at point 3 of \<open>x_spray\<close> the droplet
  mass is 0, so \<open>dl\<close> is 0, but the fuel mass fraction is 1 and the surface mass fraction
  1/2, so \<open>B\<^sub>m = -1\<close> and the logarithm is taken at 0: \<^verbatim>\<open>std::log(0.0)\<close> is \<open>-\<infinity>\<close>, and the
  product \<open>0 \<cdot> (-\<infinity>)\<close> is not a number, not 0.
\<close>

theorem evaporation_not_zero_counterexample:
  "ml_of spray0 x_spray 3 = Some 0 \<and> 0 < sqrt_dbl_min \<and> dl spray0 x_spray 3 = Some 0 \<and>
   Yrs spray0 x_spray 3 = Some (1 / 2) \<and>
   Y_of spray0 x_spray (c_offset_fuel spray0) 3 = Some 1 \<and>
   1 + (1 / 2 - 1) / max (1 - 1 / 2) sqrt_dbl_min = 0 \<and>
   flog 0 = None \<and>
   mdot spray0 x_spray 3 = None \<and> mdot spray0 x_spray 3 \<noteq> Some 0"
  using sqrt_dbl_min_pos
  by (simp add: spray0_reads spray0_dl spray0_Yrs spray0_mdot max_half flog_def)

lemma mdot_finite: "mdot s x j = Some m \<longleftrightarrow> mdot_dbl s x j = Some (Fin m)"
  by (auto simp: mdot_def mdot_dbl_def flog_def dlog_def Let_def split: bind_splits if_splits)

lemma mdot_dbl_cases:
  assumes "mdot_dbl s x j = Some m"
  obtains d rho D l where "dl s x j = Some d" "rd (m_rho s) j = Some rho" "Dgf s j = Some D"
    "m = dmul (2 * pi * d * rho * D) l"
  using assms by (auto simp: mdot_dbl_def Let_def split: bind_splits)

lemma dmul_zero: "dmul 0 l = NaN \<or> dmul 0 l = Fin 0"
  by (cases l) simp_all

lemma spray0_mdot_dbl:
  "mdot_dbl spray0 x_spray 0 = Some (Fin 0)" "mdot_dbl spray0 x_spray 3 = Some NaN"
  "mdot_dbl spray0 x_spray 2 = Some (Fin (2 * pi * ln 2))"
  by (simp_all add: mdot_dbl_def spray0_Yrs spray0_reads spray0_dl max_half dlog_def)

lemma spray0_wet_reads:
  "Yrs spray0 x_wet 2 = Some (1 / 2)" "Yrs spray0 x_wet 3 = Some (1 / 2)"
  "rhol spray0 x_wet j = Some 6"
  "Y_of spray0 x_wet (c_offset_fuel spray0) 2 = Some 2"
  "Y_of spray0 x_wet (c_offset_fuel spray0) 3 = Some 1"
  "ml_of spray0 x_wet 2 = Some pi" "ml_of spray0 x_wet 3 = Some pi"
  "T_of spray0 x_wet 2 = Some 500" "Tl_of spray0 x_wet 2 = Some 300"
  "cpgf spray0 x_wet 2 = Some 1000"
  using sqrt_dbl_min_pos
  by (simp_all add: Yrs_def prs_def fdiv_def fpow_def rhol_def Y_of_def ml_of_def T_of_def
      Tl_of_def cpgf_def x_wet_def spray_defs)

lemma spray0_wet_dl: "dl spray0 x_wet 2 = Some 1" "dl spray0 x_wet 3 = Some 1"
  using pi_not_small by (simp_all add: dl_def spray0_wet_reads fdiv_def fpow_def)

lemma spray0_wet:
  "mdot_dbl spray0 x_wet 2 = Some NaN" "mdot_dbl spray0 x_wet 3 = Some MInf"
  by (simp_all add: mdot_dbl_def spray0_wet_reads spray0_wet_dl spray0_reads max_half dlog_def)

text \<open>
  Claim C7, as amended. Let \<open>m\<close> be the double that \<open>mdot\<close> returns. If \<open>m \<le> \<surd>\<epsilon>\<close> (which
  \<open>-\<infinity>\<close> is) then \<open>q\<close> returns 0. If \<open>m\<close> is above \<open>\<surd>\<epsilon>\<close>, finite or \<open>+\<infinity>\<close>, then \<open>d\<^sub>l\<close> and the
  divisor \<open>2 \<pi> \<rho> D d\<^sub>l\<close> are not zero, \<open>B\<^sub>T = exp(m / (2 \<pi> \<rho> D d\<^sub>l)) - 1\<close> is not zero, and \<open>q\<close>
  returns \<open>c\<^sub>p (T - T\<^sub>l) / B\<^sub>T\<close> without dividing by zero; for a finite \<open>m = v\<close> that value is
  the real number \<open>c\<^sub>p (T - T\<^sub>l) / (exp(v / (2 \<pi> \<rho> D d\<^sub>l)) - 1)\<close>. If \<open>m\<close> is NaN, the guard
  is false as well: \<open>q\<close> divides by \<open>2 \<pi> \<rho> D d\<^sub>l\<close>, by zero when that is 0, and returns NaN
  otherwise.
\<close>

theorem convective_heat_transfer:
  assumes m: "mdot_dbl s x j = Some m"
  shows "(dle m sqrt_dbl_min \<longrightarrow> q_of s x j = Some (Inr (Fin 0))) \<and>
         (\<not> dle m sqrt_dbl_min \<and> m \<noteq> NaN \<longrightarrow>
            (\<exists>rho D d e. rd (m_rho s) j = Some rho \<and> Dgf s j = Some D \<and> dl s x j = Some d \<and>
               d \<noteq> 0 \<and> 2 * pi * rho * D * d \<noteq> 0 \<and>
               ddiv m (2 * pi * rho * D * d) = Inr e \<and> dsub (dexp e) 1 \<noteq> Fin 0 \<and>
               (\<forall>cp t tliq.
                  cpgf s x j = Some cp \<and> T_of s x j = Some t \<and> Tl_of s x j = Some tliq \<longrightarrow>
                  q_of s x j = Some (rdiv (cp * (t - tliq)) (dsub (dexp e) 1)) \<and>
                  q_of s x j \<noteq> Some (Inl DivisionByZero) \<and>
                  (\<forall>v. m = Fin v \<longrightarrow>
                     exp (v / (2 * pi * rho * D * d)) - 1 \<noteq> 0 \<and>
                     q_of s x j =
                       Some (Inr (Fin (cp * (t - tliq) / (exp (v / (2 * pi * rho * D * d)) - 1)))))))) \<and>
         (m = NaN \<longrightarrow>
            (\<exists>rho D d. rd (m_rho s) j = Some rho \<and> Dgf s j = Some D \<and> dl s x j = Some d \<and>
               (2 * pi * rho * D * d = 0 \<longrightarrow> q_of s x j = Some (Inl DivisionByZero)) \<and>
               (2 * pi * rho * D * d \<noteq> 0 \<longrightarrow>
                  (\<forall>cp t tliq.
                     cpgf s x j = Some cp \<and> T_of s x j = Some t \<and> Tl_of s x j = Some tliq \<longrightarrow>
                     q_of s x j = Some (Inr NaN)))))"
proof (intro conjI impI)
  assume "dle m sqrt_dbl_min"
  with m show "q_of s x j = Some (Inr (Fin 0))" by (simp add: q_of_def)
next
  assume "\<not> dle m sqrt_dbl_min \<and> m \<noteq> NaN"
  then have big: "\<not> dle m sqrt_dbl_min" and nan: "m \<noteq> NaN" by simp_all
  from m obtain d rho D l where parts: "dl s x j = Some d" "rd (m_rho s) j = Some rho"
    "Dgf s j = Some D" and prod: "m = dmul (2 * pi * d * rho * D) l"
    by (rule mdot_dbl_cases)
  have a: "2 * pi * d * rho * D \<noteq> 0"
  proof
    assume "2 * pi * d * rho * D = 0"
    with prod dmul_zero[of l] have "m = NaN \<or> m = Fin 0" by simp
    with nan big sqrt_dbl_min_pos show False by auto
  qed
  then have nz: "d \<noteq> 0" and den: "2 * pi * rho * D * d \<noteq> 0" by auto
  let ?den = "2 * pi * rho * D * d"
  have "\<exists>e. ddiv m ?den = Inr e \<and> dsub (dexp e) 1 \<noteq> Fin 0 \<and>
          (\<forall>v. m = Fin v \<longrightarrow> exp (v / ?den) - 1 \<noteq> 0 \<and> e = Fin (v / ?den))"
  proof (cases m)
    case (Fin v)
    with big sqrt_dbl_min_pos have "0 < v" by simp
    with den have "v / ?den \<noteq> 0" by simp
    then have "exp (v / ?den) - 1 \<noteq> 0" by simp
    with Fin den show ?thesis by simp
  next
    case PInf
    with den show ?thesis by simp
  next
    case MInf
    with big show ?thesis by simp
  next
    case NaN
    with nan show ?thesis by simp
  qed
  then obtain e where e: "ddiv m ?den = Inr e" and BT: "dsub (dexp e) 1 \<noteq> Fin 0"
    and fin: "\<forall>v. m = Fin v \<longrightarrow> exp (v / ?den) - 1 \<noteq> 0 \<and> e = Fin (v / ?den)"
    by blast
  have ret: "\<exists>r. rdiv c (dsub (dexp e) 1) = Inr r" for c
    using BT by (cases "dsub (dexp e) 1") simp_all
  have "q_of s x j = Some (rdiv (cp * (t - tliq)) (dsub (dexp e) 1)) \<and>
        q_of s x j \<noteq> Some (Inl DivisionByZero) \<and>
        (\<forall>v. m = Fin v \<longrightarrow>
           exp (v / ?den) - 1 \<noteq> 0 \<and>
           q_of s x j = Some (Inr (Fin (cp * (t - tliq) / (exp (v / ?den) - 1)))))"
    if reads: "cpgf s x j = Some cp \<and> T_of s x j = Some t \<and> Tl_of s x j = Some tliq"
    for cp t tliq
  proof -
    have q: "q_of s x j = Some (rdiv (cp * (t - tliq)) (dsub (dexp e) 1))"
      using reads m big parts e by (simp add: q_of_def)
    moreover from q ret[of "cp * (t - tliq)"] have "q_of s x j \<noteq> Some (Inl DivisionByZero)"
      by auto
    moreover have "exp (v / ?den) - 1 \<noteq> 0 \<and>
        q_of s x j = Some (Inr (Fin (cp * (t - tliq) / (exp (v / ?den) - 1))))"
      if "m = Fin v" for v
      using q fin that by simp
    ultimately show ?thesis by blast
  qed
  with parts nz den e BT
  show "\<exists>rho D d e. rd (m_rho s) j = Some rho \<and> Dgf s j = Some D \<and> dl s x j = Some d \<and>
               d \<noteq> 0 \<and> 2 * pi * rho * D * d \<noteq> 0 \<and>
               ddiv m (2 * pi * rho * D * d) = Inr e \<and> dsub (dexp e) 1 \<noteq> Fin 0 \<and>
               (\<forall>cp t tliq.
                  cpgf s x j = Some cp \<and> T_of s x j = Some t \<and> Tl_of s x j = Some tliq \<longrightarrow>
                  q_of s x j = Some (rdiv (cp * (t - tliq)) (dsub (dexp e) 1)) \<and>
                  q_of s x j \<noteq> Some (Inl DivisionByZero) \<and>
                  (\<forall>v. m = Fin v \<longrightarrow>
                     exp (v / (2 * pi * rho * D * d)) - 1 \<noteq> 0 \<and>
                     q_of s x j =
                       Some (Inr (Fin (cp * (t - tliq) / (exp (v / (2 * pi * rho * D * d)) - 1))))))"
    by blast
next
  assume nan: "m = NaN"
  from m obtain d rho D l where parts: "dl s x j = Some d" "rd (m_rho s) j = Some rho"
    "Dgf s j = Some D"
    by (rule mdot_dbl_cases)
  have "2 * pi * rho * D * d = 0 \<longrightarrow> q_of s x j = Some (Inl DivisionByZero)"
    using m nan parts by (simp add: q_of_def)
  moreover have "2 * pi * rho * D * d \<noteq> 0 \<longrightarrow>
                  (\<forall>cp t tliq.
                     cpgf s x j = Some cp \<and> T_of s x j = Some t \<and> Tl_of s x j = Some tliq \<longrightarrow>
                     q_of s x j = Some (Inr NaN))"
    using m nan parts by (simp add: q_of_def)
  ultimately
  show "\<exists>rho D d. rd (m_rho s) j = Some rho \<and> Dgf s j = Some D \<and> dl s x j = Some d \<and>
               (2 * pi * rho * D * d = 0 \<longrightarrow> q_of s x j = Some (Inl DivisionByZero)) \<and>
               (2 * pi * rho * D * d \<noteq> 0 \<longrightarrow>
                  (\<forall>cp t tliq.
                     cpgf s x j = Some cp \<and> T_of s x j = Some t \<and> Tl_of s x j = Some tliq \<longrightarrow>
                     q_of s x j = Some (Inr NaN)))"
    using parts by blast
qed

text \<open>The theorem at the points 0 and 2 of \<open>x_spray\<close> (no evaporation at point 0, the rate
  \<open>2 \<pi> ln 2\<close> at point 2), at point 3 of \<open>x_wet\<close>, where the rate is \<open>-\<infinity>\<close>, and at point 2
  of \<open>x_wet\<close>, where it is NaN and the droplet diameter is 1.\<close>

theorem convective_heat_transfer_witness:
  "mdot_dbl spray0 x_spray 0 = Some (Fin 0) \<and> dle (Fin 0) sqrt_dbl_min \<and>
   q_of spray0 x_spray 0 = Some (Inr (Fin 0)) \<and>
   mdot_dbl spray0 x_wet 3 = Some MInf \<and> dle MInf sqrt_dbl_min \<and>
   q_of spray0 x_wet 3 = Some (Inr (Fin 0)) \<and>
   mdot_dbl spray0 x_spray 2 = Some (Fin (2 * pi * ln 2)) \<and>
   \<not> dle (Fin (2 * pi * ln 2)) sqrt_dbl_min \<and> Fin (2 * pi * ln 2) \<noteq> NaN \<and>
   rd (m_rho spray0) 2 = Some 1 \<and> Dgf spray0 2 = Some 1 \<and> dl spray0 x_spray 2 = Some 1 \<and>
   cpgf spray0 x_spray 2 = Some 1000 \<and> T_of spray0 x_spray 2 = Some 500 \<and>
   Tl_of spray0 x_spray 2 = Some 300 \<and>
   exp (2 * pi * ln 2 / (2 * pi * 1 * 1 * 1)) - 1 \<noteq> (0::real) \<and>
   q_of spray0 x_spray 2 =
     Some (Inr (Fin (1000 * (500 - 300) / (exp (2 * pi * ln 2 / (2 * pi * 1 * 1 * 1)) - 1)))) \<and>
   mdot_dbl spray0 x_wet 2 = Some NaN \<and> dl spray0 x_wet 2 = Some 1 \<and>
   2 * pi * 1 * 1 * 1 \<noteq> (0::real) \<and>
   cpgf spray0 x_wet 2 = Some 1000 \<and> T_of spray0 x_wet 2 = Some 500 \<and>
   Tl_of spray0 x_wet 2 = Some 300 \<and>
   q_of spray0 x_wet 2 = Some (Inr NaN)"
proof -
  from convective_heat_transfer[OF spray0_mdot_dbl(1)] sqrt_dbl_min_pos
  have a: "q_of spray0 x_spray 0 = Some (Inr (Fin 0))" by simp
  from convective_heat_transfer[OF spray0_wet(2)]
  have b: "q_of spray0 x_wet 3 = Some (Inr (Fin 0))" by simp
  have big: "\<not> dle (Fin (2 * pi * ln 2)) sqrt_dbl_min"
    using spray0_mdot_large by simp
  from convective_heat_transfer[OF spray0_mdot_dbl(3)] big
  obtain rho D d where parts: "rd (m_rho spray0) 2 = Some rho" "Dgf spray0 2 = Some D"
    "dl spray0 x_spray 2 = Some d"
    and q: "\<forall>cp t tliq.
                  cpgf spray0 x_spray 2 = Some cp \<and> T_of spray0 x_spray 2 = Some t \<and>
                  Tl_of spray0 x_spray 2 = Some tliq \<longrightarrow>
                  (\<forall>v. Fin (2 * pi * ln 2) = Fin v \<longrightarrow>
                     exp (v / (2 * pi * rho * D * d)) - 1 \<noteq> 0 \<and>
                     q_of spray0 x_spray 2 =
                       Some (Inr (Fin (cp * (t - tliq) / (exp (v / (2 * pi * rho * D * d)) - 1)))))"
    by blast
  from parts have eq: "rho = 1" "D = 1" "d = 1"
    by (simp_all add: spray0_reads spray0_dl)
  from q spray0_reads(16,7,8)
  have c: "exp (2 * pi * ln 2 / (2 * pi * rho * D * d)) - 1 \<noteq> 0 \<and>
        q_of spray0 x_spray 2 =
          Some (Inr (Fin (1000 * (500 - 300) / (exp (2 * pi * ln 2 / (2 * pi * rho * D * d)) - 1))))"
    by blast
  from convective_heat_transfer[OF spray0_wet(1)]
  obtain rho' D' d' where parts': "rd (m_rho spray0) 2 = Some rho'" "Dgf spray0 2 = Some D'"
    "dl spray0 x_wet 2 = Some d'"
    and q': "2 * pi * rho' * D' * d' \<noteq> 0 \<longrightarrow>
                  (\<forall>cp t tliq.
                     cpgf spray0 x_wet 2 = Some cp \<and> T_of spray0 x_wet 2 = Some t \<and>
                     Tl_of spray0 x_wet 2 = Some tliq \<longrightarrow>
                     q_of spray0 x_wet 2 = Some (Inr NaN))"
    by blast
  from parts' have eq': "rho' = 1" "D' = 1" "d' = 1"
    by (simp_all add: spray0_reads spray0_wet_dl)
  from q' spray0_wet_reads(8,9,10) have d: "q_of spray0 x_wet 2 = Some (Inr NaN)"
    unfolding eq' by simp
  from a b c d big show ?thesis
    unfolding eq
    using sqrt_dbl_min_pos spray0_mdot_dbl spray0_wet spray0_reads spray0_dl spray0_wet_reads
      spray0_wet_dl
    by simp
qed

text \<open>
  Claim C7 as stated fails where the evaporation rate is NaN. At point 3 of \<open>x_spray\<close> the
  droplet diameter is 0 and the logarithm is taken at 0, so \<open>mdot\<close> returns \<open>0 \<cdot> (-\<infinity>)\<close>,
  which is NaN; the comparison \<^verbatim>\<open>mdot(x,j) <= sqrt(min)\<close> is false for NaN, the \<^verbatim>\<open>else\<close>
  branch runs and divides by \<open>2 \<pi> \<rho> D d\<^sub>l = 0\<close>.
\<close>

theorem convective_heat_transfer_counterexample:
  "mdot_dbl spray0 x_spray 3 = Some NaN \<and> \<not> dle NaN sqrt_dbl_min \<and>
   rd (m_rho spray0) 3 = Some 1 \<and> Dgf spray0 3 = Some 1 \<and> dl spray0 x_spray 3 = Some 0 \<and>
   2 * pi * 1 * 1 * 0 = (0::real) \<and>
   ddiv NaN (2 * pi * 1 * 1 * 0) = Inl DivisionByZero \<and>
   q_of spray0 x_spray 3 = Some (Inl DivisionByZero) \<and>
   q_of spray0 x_spray 3 \<noteq> Some (Inr (Fin 0))"
  by (simp add: q_of_def spray0_mdot_dbl spray0_reads spray0_dl)

text \<open>
  Claim C5 says that \<open>setLiquidVapPressParam\<close>, called with a unit other than \<^verbatim>\<open>"mmHg"\<close>
  or \<^verbatim>\<open>"bar"\<close>, raises an error instead of returning with the parameters unset. The code
  does not: called with the unit \<^verbatim>\<open>"Pa"\<close> it returns normally and leaves the five
  vapour-pressure members as they were.
\<close>

theorem setLiquidVapPressParam_unknown_unit:
  "setLiquidVapPressParam 4 1500 220 370 ''Pa'' spray_base = spray_base"
  by (simp add: setLiquidVapPressParam_def)

end
